theory Spec2Isabelle
  imports Main "HOL-Library.Word" "HOL-Library.Char_ord" "HOL-Library.List_Lexorder"
begin

text \<open>
  A shallow embedding of the reconciliation core of the ALB ingress controller: the
  security-group reconciler, the ingress group reconciler, the target-group annotation
  parser, the controller's annotation parsing with its subnet and security-group
  resolution, and the desired listener rules. Each source function is a HOL function of
  the same name; calls to the cloud and to the cluster are answered by parameters and
  recorded in a trace.
\<close>

section \<open>Go values shared by the controller packages\<close>

text \<open>
  A Go \<open>*string\<close> is a \<open>string option\<close> (\<open>None\<close> is the nil pointer), a \<open>*int64\<close> a
  \<open>64 word option\<close>. \<open>aws.StringValue\<close> and \<open>aws.Int64Value\<close> read a pointer and give the
  zero value for nil. An \<open>error\<close> is the message it carries; a nil error is \<open>None\<close>.
  Logging calls have no effect on results and are left out.
\<close>

datatype error = Error string

definition StringValue :: "string option \<Rightarrow> string" where
  "StringValue p = (case p of None \<Rightarrow> [] | Some s \<Rightarrow> s)"

definition Int64Value :: "64 word option \<Rightarrow> 64 word" where
  "Int64Value p = (case p of None \<Rightarrow> 0 | Some n \<Rightarrow> n)"

definition errorString :: "error \<Rightarrow> string" where
  "errorString e = (case e of Error m \<Rightarrow> m)"

section \<open>internal/alb/sg/security\_group.go\<close>

subsection \<open>The EC2 types the reconciler reads\<close>

record IpRange =
  CidrIp :: "string option"
  RangeDescription :: "string option"

record Ipv6Range =
  CidrIpv6 :: "string option"
  Range6Description :: "string option"

record UserIdGroupPair =
  PairDescription :: "string option"
  GroupId :: "string option"
  PairGroupName :: "string option"
  PeeringStatus :: "string option"
  UserId :: "string option"
  VpcId :: "string option"
  VpcPeeringConnectionId :: "string option"

record IpPermission =
  FromPort :: "64 word option"
  IpProtocol :: "string option"
  IpRanges :: "IpRange list"
  Ipv6Ranges :: "Ipv6Range list"
  PrefixListIds :: "string option list"
  ToPort :: "64 word option"
  UserIdGroupPairs :: "UserIdGroupPair list"

record Tag =
  Key :: "string option"
  Val :: "string option"

text \<open>\<open>ec2.SecurityGroup\<close>, the instance found in AWS.\<close>

record Ec2SecurityGroup =
  InstGroupId :: "string option"
  InstGroupName :: "string option"
  IpPermissions :: "IpPermission list"

text \<open>\<open>sg.SecurityGroup\<close>, the desired group.\<close>

record SecurityGroup =
  GroupID :: "string option"
  GroupName :: "string option"
  InboundPermissions :: "IpPermission list"

subsection \<open>Set differences\<close>

definition ipRangeEquals :: "IpRange \<Rightarrow> IpRange \<Rightarrow> bool" where
  "ipRangeEquals source target \<longleftrightarrow> StringValue (CidrIp source) = StringValue (CidrIp target)"

definition userIDGroupPairEquals :: "UserIdGroupPair \<Rightarrow> UserIdGroupPair \<Rightarrow> bool" where
  "userIDGroupPairEquals source target \<longleftrightarrow>
     StringValue (GroupId source) = StringValue (GroupId target)"

text \<open>
  The three \<open>diff\<close> functions are the same two nested loops: the inner loop looks for
  the first element of \<open>target\<close> equal to the element of \<open>source\<close> and breaks, the outer
  loop appends the elements of \<open>source\<close> for which none was found.
\<close>

fun containsInTarget :: "('a \<Rightarrow> 'a \<Rightarrow> bool) \<Rightarrow> 'a \<Rightarrow> 'a list \<Rightarrow> bool" where
  "containsInTarget eq s [] = False"
| "containsInTarget eq s (t # target) = (if eq s t then True else containsInTarget eq s target)"

fun diffLoop :: "('a \<Rightarrow> 'a \<Rightarrow> bool) \<Rightarrow> 'a list \<Rightarrow> 'a list \<Rightarrow> 'a list \<Rightarrow> 'a list" where
  "diffLoop eq [] target diffs = diffs"
| "diffLoop eq (s # source) target diffs =
     (if \<not> containsInTarget eq s target then diffLoop eq source target (diffs @ [s])
      else diffLoop eq source target diffs)"

definition diffIPRanges :: "IpRange list \<Rightarrow> IpRange list \<Rightarrow> IpRange list" where
  "diffIPRanges source target = diffLoop ipRangeEquals source target []"

definition diffUserIDGroupPairs ::
  "UserIdGroupPair list \<Rightarrow> UserIdGroupPair list \<Rightarrow> UserIdGroupPair list" where
  "diffUserIDGroupPairs source target = diffLoop userIDGroupPairEquals source target []"

definition ipPermissionEquals :: "IpPermission \<Rightarrow> IpPermission \<Rightarrow> bool" where
  "ipPermissionEquals source target =
     (if StringValue (IpProtocol source) \<noteq> StringValue (IpProtocol target) then False
      else if Int64Value (FromPort source) \<noteq> Int64Value (FromPort target) then False
      else if Int64Value (ToPort source) \<noteq> Int64Value (ToPort target) then False
      else if length (diffIPRanges (IpRanges source) (IpRanges target)) \<noteq> 0 then False
      else if length (diffIPRanges (IpRanges target) (IpRanges source)) \<noteq> 0 then False
      else if length (diffUserIDGroupPairs (UserIdGroupPairs source) (UserIdGroupPairs target)) \<noteq> 0
        then False
      else if length (diffUserIDGroupPairs (UserIdGroupPairs target) (UserIdGroupPairs source)) \<noteq> 0
        then False
      else True)"

definition diffIPPermissions :: "IpPermission list \<Rightarrow> IpPermission list \<Rightarrow> IpPermission list" where
  "diffIPPermissions source target = diffLoop ipPermissionEquals source target []"

subsection \<open>The cloud and the calls made to it\<close>

text \<open>
  \<open>aws.CloudAPI\<close> is an interface whose implementation is outside this package: the
  reconciler is modelled for every implementation, given as the answers to its calls.
  The calls the reconciler makes are recorded in order.
\<close>

record CloudAPI =
  CreateSecurityGroupWithContext :: "string option \<Rightarrow> string option \<Rightarrow> error + string option"
  AuthorizeSecurityGroupIngressWithContext :: "string option \<Rightarrow> IpPermission list \<Rightarrow> error option"
  RevokeSecurityGroupIngressWithContext :: "string option \<Rightarrow> IpPermission list \<Rightarrow> error option"
  CreateTagsWithContext :: "string option list \<Rightarrow> Tag list \<Rightarrow> error option"
  GetSecurityGroupByID :: "string \<Rightarrow> error + Ec2SecurityGroup option"
  GetSecurityGroupByName :: "string \<Rightarrow> error + Ec2SecurityGroup option"
  DeleteSecurityGroupByID :: "string \<Rightarrow> error option"

datatype sg_call =
    CallCreateSecurityGroup "string option" "string option"
  | CallAuthorizeIngress "string option" "IpPermission list"
  | CallRevokeIngress "string option" "IpPermission list"
  | CallCreateTags "string option list" "Tag list"
  | CallGetSecurityGroupByID string
  | CallGetSecurityGroupByName string
  | CallDeleteSecurityGroupByID string

text \<open>The calls that change the cloud: everything but the two lookups.\<close>

fun isMutation :: "sg_call \<Rightarrow> bool" where
  "isMutation (CallGetSecurityGroupByID _) = False"
| "isMutation (CallGetSecurityGroupByName _) = False"
| "isMutation _ = True"

text \<open>
  A reconcile returns its error (or nil), the group with the fields it populated, and
  the calls it made. The controller's \<open>Delete\<close> plays no part in the properties below
  and is not modelled.
\<close>

type_synonym sg_result = "error option \<times> SecurityGroup \<times> sg_call list"

definition reconcileByModifySGInstance ::
  "CloudAPI \<Rightarrow> SecurityGroup \<Rightarrow> Ec2SecurityGroup \<Rightarrow> sg_result" where
  "reconcileByModifySGInstance cloud grp0 instance =
     (let grp1 = (if GroupID grp0 = None then grp0\<lparr>GroupID := InstGroupId instance\<rparr>
                    else grp0);
          grp = (if GroupName grp1 = None then grp1\<lparr>GroupName := InstGroupName instance\<rparr>
                   else grp1);
          permissionsToRevoke = diffIPPermissions (IpPermissions instance) (InboundPermissions grp);
          (revokeErr, calls1) =
            (if length permissionsToRevoke \<noteq> 0
             then (RevokeSecurityGroupIngressWithContext cloud (GroupID grp) permissionsToRevoke,
                   [CallRevokeIngress (GroupID grp) permissionsToRevoke])
             else (None, []))
      in case revokeErr of
           Some err \<Rightarrow>
             (Some (Error (''failed to revoke inbound permissions due to '' @ errorString err)),
              grp, calls1)
         | None \<Rightarrow>
             (let permissionsToGrant =
                    diffIPPermissions (InboundPermissions grp) (IpPermissions instance);
                  (grantErr, calls2) =
                    (if length permissionsToGrant \<noteq> 0
                     then (AuthorizeSecurityGroupIngressWithContext cloud (GroupID grp)
                             permissionsToGrant,
                           [CallAuthorizeIngress (GroupID grp) permissionsToGrant])
                     else (None, []))
              in case grantErr of
                   Some err \<Rightarrow>
                     (Some (Error (''failed to grant inbound permissions due to '' @ errorString err)),
                      grp, calls1 @ calls2)
                 | None \<Rightarrow> (None, grp, calls1 @ calls2)))"

text \<open>
  \<open>aws.ManagedByKey\<close> and \<open>aws.ManagedByValue\<close> are constants of a package that is not
  part of the sources at hand; they are parameters here.
\<close>

definition reconcileByNewSGInstance ::
  "string \<Rightarrow> string \<Rightarrow> CloudAPI \<Rightarrow> SecurityGroup \<Rightarrow> sg_result" where
  "reconcileByNewSGInstance ManagedByKey ManagedByValue cloud grp0 =
     (let description = Some ''Instance SecurityGroup created by alb-ingress-controller'';
          calls1 = [CallCreateSecurityGroup (GroupName grp0) description]
      in case CreateSecurityGroupWithContext cloud (GroupName grp0) description of
           Inl err \<Rightarrow> (Some err, grp0, calls1)
         | Inr createdGroupId \<Rightarrow>
             (let grp = grp0\<lparr>GroupID := createdGroupId\<rparr>;
                  calls2 = calls1 @ [CallAuthorizeIngress (GroupID grp) (InboundPermissions grp)]
              in case AuthorizeSecurityGroupIngressWithContext cloud (GroupID grp)
                        (InboundPermissions grp) of
                   Some err \<Rightarrow> (Some err, grp, calls2)
                 | None \<Rightarrow>
                     (let tags = [\<lparr>Key = Some ''Name'', Val = GroupName grp\<rparr>,
                                  \<lparr>Key = Some ManagedByKey, Val = Some ManagedByValue\<rparr>];
                          calls3 = calls2 @ [CallCreateTags [GroupID grp] tags]
                      in case CreateTagsWithContext cloud [GroupID grp] tags of
                           Some err \<Rightarrow> (Some err, grp, calls3)
                         | None \<Rightarrow> (None, grp, calls3))))"

text \<open>
  \<open>findExistingSGInstance\<close>: by ID when the group has one (a missing instance is an
  error), else by name (a missing instance is nil), else an error.
\<close>

definition findExistingSGInstance ::
  "CloudAPI \<Rightarrow> SecurityGroup \<Rightarrow> (error + Ec2SecurityGroup option) \<times> sg_call list" where
  "findExistingSGInstance cloud grp =
     (if GroupID grp \<noteq> None then
        (case GetSecurityGroupByID cloud (StringValue (GroupID grp)) of
           Inl err \<Rightarrow> Inl err
         | Inr None \<Rightarrow>
             Inl (Error (''securityGroup '' @ StringValue (GroupID grp) @ '' doesn't exist''))
         | Inr (Some instance) \<Rightarrow> Inr (Some instance),
         [CallGetSecurityGroupByID (StringValue (GroupID grp))])
      else if GroupName grp \<noteq> None then
        (case GetSecurityGroupByName cloud (StringValue (GroupName grp)) of
           Inl err \<Rightarrow> Inl err
         | Inr instance \<Rightarrow> Inr instance,
         [CallGetSecurityGroupByName (StringValue (GroupName grp))])
      else (Inl (Error ''Either GroupID or GroupName must be specified''), []))"

definition Reconcile ::
  "string \<Rightarrow> string \<Rightarrow> CloudAPI \<Rightarrow> SecurityGroup \<Rightarrow> sg_result" where
  "Reconcile ManagedByKey ManagedByValue cloud grp =
     (case findExistingSGInstance cloud grp of
        (Inl err, calls0) \<Rightarrow> (Some err, grp, calls0)
      | (Inr (Some instance), calls0) \<Rightarrow>
          (case reconcileByModifySGInstance cloud grp instance of
             (err, grp', calls) \<Rightarrow> (err, grp', calls0 @ calls))
      | (Inr None, calls0) \<Rightarrow>
          (case reconcileByNewSGInstance ManagedByKey ManagedByValue cloud grp of
             (err, grp', calls) \<Rightarrow> (err, grp', calls0 @ calls)))"

subsection \<open>Example values\<close>

definition tcpPermission :: "64 word \<Rightarrow> string \<Rightarrow> string \<Rightarrow> IpPermission" where
  "tcpPermission port cidr descr =
     \<lparr>FromPort = Some port, IpProtocol = Some ''tcp'',
      IpRanges = [\<lparr>CidrIp = Some cidr, RangeDescription = Some descr\<rparr>],
      Ipv6Ranges = [], PrefixListIds = [], ToPort = Some port, UserIdGroupPairs = []\<rparr>"

definition pairOf :: "string \<Rightarrow> string \<Rightarrow> UserIdGroupPair" where
  "pairOf gid uid =
     \<lparr>PairDescription = None, GroupId = Some gid, PairGroupName = None, PeeringStatus = None,
      UserId = Some uid, VpcId = None, VpcPeeringConnectionId = None\<rparr>"

definition sgPermission :: "UserIdGroupPair list \<Rightarrow> IpPermission" where
  "sgPermission pairs =
     \<lparr>FromPort = Some 0, IpProtocol = Some ''tcp'', IpRanges = [], Ipv6Ranges = [],
      PrefixListIds = [], ToPort = Some 65535, UserIdGroupPairs = pairs\<rparr>"

definition exampleInstance :: Ec2SecurityGroup where
  "exampleInstance =
     \<lparr>InstGroupId = Some ''sg-1'', InstGroupName = Some ''web'',
      IpPermissions = [tcpPermission 80 ''10.0.0.0/8'' ''old'', tcpPermission 443 ''0.0.0.0/0'' []]\<rparr>"

definition exampleGroup :: SecurityGroup where
  "exampleGroup =
     \<lparr>GroupID = None, GroupName = Some ''web'',
      InboundPermissions =
        [tcpPermission 80 ''10.0.0.0/8'' ''new'', tcpPermission 8080 ''0.0.0.0/0'' []]\<rparr>"

definition settledGroup :: SecurityGroup where
  "settledGroup =
     \<lparr>GroupID = Some ''sg-1'', GroupName = None,
      InboundPermissions =
        [tcpPermission 443 ''0.0.0.0/0'' ''https'', tcpPermission 80 ''10.0.0.0/8'' ''http'']\<rparr>"

text \<open>A cloud in which every call succeeds and the lookups find \<open>exampleInstance\<close>.\<close>

definition exampleCloud :: CloudAPI where
  "exampleCloud =
     \<lparr>CreateSecurityGroupWithContext = (\<lambda>name descr. Inr (Some ''sg-new'')),
      AuthorizeSecurityGroupIngressWithContext = (\<lambda>gid perms. None),
      RevokeSecurityGroupIngressWithContext = (\<lambda>gid perms. None),
      CreateTagsWithContext = (\<lambda>resources tags. None),
      GetSecurityGroupByID = (\<lambda>gid. Inr (Some exampleInstance)),
      GetSecurityGroupByName = (\<lambda>name. Inr (Some exampleInstance)),
      DeleteSecurityGroupByID = (\<lambda>gid. None)\<rparr>"

subsection \<open>What the reconciler is stated in terms of\<close>

text \<open>The group ID the modify path uses: the group's own, or the instance's when it has none.\<close>

definition effectiveGroupID :: "SecurityGroup \<Rightarrow> Ec2SecurityGroup \<Rightarrow> string option" where
  "effectiveGroupID grp instance =
     (if GroupID grp = None then InstGroupId instance else GroupID grp)"

text \<open>
  Two permission lists are equal as sets, under the reconciler's equality of permissions,
  when each permission of one has an equal in the other.
\<close>

definition permissionsEqualAsSets :: "IpPermission list \<Rightarrow> IpPermission list \<Rightarrow> bool" where
  "permissionsEqualAsSets desired current \<longleftrightarrow>
     list_all (\<lambda>c. list_ex (ipPermissionEquals c) desired) current \<and>
     list_all (\<lambda>d. list_ex (ipPermissionEquals d) current) desired"

text \<open>The keys of the tags set by the \<open>CreateTags\<close> calls of a trace.\<close>

fun createdTagKeys :: "sg_call list \<Rightarrow> string list" where
  "createdTagKeys [] = []"
| "createdTagKeys (CallCreateTags resources tags # calls) =
     map (\<lambda>t. StringValue (Key t)) tags @ createdTagKeys calls"
| "createdTagKeys (_ # calls) = createdTagKeys calls"


subsection \<open>Properties of the security-group reconciler\<close>

lemmas sg_example_defs =
  tcpPermission_def pairOf_def sgPermission_def exampleInstance_def exampleGroup_def
  settledGroup_def exampleCloud_def

lemmas sg_eval_defs =
  diffIPPermissions_def diffIPRanges_def diffUserIDGroupPairs_def ipPermissionEquals_def
  ipRangeEquals_def userIDGroupPairEquals_def StringValue_def Int64Value_def

lemma containsInTarget_ex: "containsInTarget eq s target \<longleftrightarrow> list_ex (eq s) target"
  by (induction target) auto

lemma diffLoop_filter:
  "diffLoop eq source target diffs = diffs @ filter (\<lambda>s. \<not> list_ex (eq s) target) source"
  by (induction source arbitrary: diffs) (auto simp: containsInTarget_ex)

lemma diffLoop_empty_iff:
  "diffLoop eq source target [] = [] \<longleftrightarrow> list_all (\<lambda>s. list_ex (eq s) target) source"
  by (simp add: diffLoop_filter filter_empty_conv list_all_iff)

lemma diffIPRanges_empty_iff:
  "diffIPRanges source target = [] \<longleftrightarrow>
     set (map (\<lambda>r. StringValue (CidrIp r)) source) \<subseteq>
     set (map (\<lambda>r. StringValue (CidrIp r)) target)"
  by (auto simp: diffIPRanges_def diffLoop_empty_iff list_all_iff list_ex_iff ipRangeEquals_def)

lemma diffUserIDGroupPairs_empty_iff:
  "diffUserIDGroupPairs source target = [] \<longleftrightarrow>
     set (map (\<lambda>g. StringValue (GroupId g)) source) \<subseteq>
     set (map (\<lambda>g. StringValue (GroupId g)) target)"
  by (auto simp: diffUserIDGroupPairs_def diffLoop_empty_iff list_all_iff list_ex_iff
        userIDGroupPairEquals_def)

lemma ipPermissionEquals_iff:
  "ipPermissionEquals p q \<longleftrightarrow>
     StringValue (IpProtocol p) = StringValue (IpProtocol q) \<and>
     Int64Value (FromPort p) = Int64Value (FromPort q) \<and>
     Int64Value (ToPort p) = Int64Value (ToPort q) \<and>
     set (map (\<lambda>r. StringValue (CidrIp r)) (IpRanges p)) =
       set (map (\<lambda>r. StringValue (CidrIp r)) (IpRanges q)) \<and>
     set (map (\<lambda>g. StringValue (GroupId g)) (UserIdGroupPairs p)) =
       set (map (\<lambda>g. StringValue (GroupId g)) (UserIdGroupPairs q))"
  unfolding ipPermissionEquals_def length_0_conv diffIPRanges_empty_iff
    diffUserIDGroupPairs_empty_iff
  by auto

lemma ipPermissionEquals_refl: "ipPermissionEquals p p"
  by (simp add: ipPermissionEquals_iff)

lemma diffIPPermissions_filter:
  "diffIPPermissions source target =
     filter (\<lambda>s. \<not> list_ex (ipPermissionEquals s) target) source"
  by (simp add: diffIPPermissions_def diffLoop_filter)

lemma diffIPPermissions_empty_iff:
  "diffIPPermissions source target = [] \<longleftrightarrow>
     list_all (\<lambda>s. list_ex (ipPermissionEquals s) target) source"
  by (simp add: diffIPPermissions_def diffLoop_empty_iff)

lemma modify_calls:
  "snd (snd (reconcileByModifySGInstance cloud grp instance)) =
     (let gid = effectiveGroupID grp instance;
          revoke = diffIPPermissions (IpPermissions instance) (InboundPermissions grp);
          grant = diffIPPermissions (InboundPermissions grp) (IpPermissions instance)
      in (if revoke = [] then [] else [CallRevokeIngress gid revoke]) @
         (if grant = [] then []
          else if revoke = [] then [CallAuthorizeIngress gid grant]
          else if RevokeSecurityGroupIngressWithContext cloud gid revoke = None
               then [CallAuthorizeIngress gid grant] else []))"
proof (cases "diffIPPermissions (IpPermissions instance) (InboundPermissions grp) = []")
  case True
  then show ?thesis
    by (cases "GroupID grp"; cases "GroupName grp")
       (simp_all add: reconcileByModifySGInstance_def effectiveGroupID_def Let_def
          split: option.splits)
next
  case False
  then show ?thesis
    by (cases "GroupID grp"; cases "GroupName grp")
       (simp_all add: reconcileByModifySGInstance_def effectiveGroupID_def Let_def
          split: option.splits)
qed

lemma modify_settled:
  assumes "permissionsEqualAsSets (InboundPermissions grp) (IpPermissions instance)"
  shows "fst (reconcileByModifySGInstance cloud grp instance) = None"
    and "snd (snd (reconcileByModifySGInstance cloud grp instance)) = []"
proof -
  from assms have r: "diffIPPermissions (IpPermissions instance) (InboundPermissions grp) = []"
    and g: "diffIPPermissions (InboundPermissions grp) (IpPermissions instance) = []"
    by (simp_all add: permissionsEqualAsSets_def diffIPPermissions_empty_iff)
  show "fst (reconcileByModifySGInstance cloud grp instance) = None"
    by (cases "GroupID grp"; cases "GroupName grp")
       (simp_all add: reconcileByModifySGInstance_def Let_def r g)
  show "snd (snd (reconcileByModifySGInstance cloud grp instance)) = []"
    by (simp add: modify_calls Let_def r g)
qed

lemma set_eq_permissionsEqualAsSets:
  "set desired = set current \<Longrightarrow> permissionsEqualAsSets desired current"
  unfolding permissionsEqualAsSets_def list_all_iff list_ex_iff
  using ipPermissionEquals_refl by blast

text \<open>
  C1. For any desired and current inbound permissions, the permissions revoked are those of
  the current list with no equal in the desired list, and the permissions granted those of
  the desired list with no equal in the current list. Two permissions are equal exactly
  when protocol, from-port and to-port agree (a nil pointer reading as the zero value) and
  their IP ranges, by CIDR, and their user-ID-group pairs, by group ID, are the same sets.
  The modify path calls revoke only with a non-empty revoke list and authorize only with a
  non-empty grant list (and only when the revoke it made did not fail); it makes no other
  call.
\<close>

theorem reconcile_revoke_grant_sets:
  "diffIPPermissions current desired =
     filter (\<lambda>c. \<not> list_ex (ipPermissionEquals c) desired) current \<and>
   diffIPPermissions desired current =
     filter (\<lambda>d. \<not> list_ex (ipPermissionEquals d) current) desired \<and>
   (ipPermissionEquals p q \<longleftrightarrow>
      StringValue (IpProtocol p) = StringValue (IpProtocol q) \<and>
      Int64Value (FromPort p) = Int64Value (FromPort q) \<and>
      Int64Value (ToPort p) = Int64Value (ToPort q) \<and>
      set (map (\<lambda>r. StringValue (CidrIp r)) (IpRanges p)) =
        set (map (\<lambda>r. StringValue (CidrIp r)) (IpRanges q)) \<and>
      set (map (\<lambda>g. StringValue (GroupId g)) (UserIdGroupPairs p)) =
        set (map (\<lambda>g. StringValue (GroupId g)) (UserIdGroupPairs q))) \<and>
   snd (snd (reconcileByModifySGInstance cloud grp instance)) =
     (let gid = effectiveGroupID grp instance;
          revoke = diffIPPermissions (IpPermissions instance) (InboundPermissions grp);
          grant = diffIPPermissions (InboundPermissions grp) (IpPermissions instance)
      in (if revoke = [] then [] else [CallRevokeIngress gid revoke]) @
         (if grant = [] then []
          else if revoke = [] then [CallAuthorizeIngress gid grant]
          else if RevokeSecurityGroupIngressWithContext cloud gid revoke = None
               then [CallAuthorizeIngress gid grant] else []))"
  by (intro conjI diffIPPermissions_filter ipPermissionEquals_iff modify_calls)

theorem reconcile_revoke_grant_sets_witness:
  "diffIPPermissions (IpPermissions exampleInstance) (InboundPermissions exampleGroup) =
     [tcpPermission 443 ''0.0.0.0/0'' []] \<and>
   diffIPPermissions (InboundPermissions exampleGroup) (IpPermissions exampleInstance) =
     [tcpPermission 8080 ''0.0.0.0/0'' []] \<and>
   ipPermissionEquals (tcpPermission 80 ''10.0.0.0/8'' ''old'')
     (tcpPermission 80 ''10.0.0.0/8'' ''new'') \<and>
   snd (snd (reconcileByModifySGInstance exampleCloud exampleGroup exampleInstance)) =
     [CallRevokeIngress (Some ''sg-1'') [tcpPermission 443 ''0.0.0.0/0'' []],
      CallAuthorizeIngress (Some ''sg-1'') [tcpPermission 8080 ''0.0.0.0/0'' []]]"
  using reconcile_revoke_grant_sets [of "IpPermissions exampleInstance"
      "InboundPermissions exampleGroup" "tcpPermission 80 ''10.0.0.0/8'' ''old''"
      "tcpPermission 80 ''10.0.0.0/8'' ''new''" exampleCloud exampleGroup exampleInstance]
  by (simp add: effectiveGroupID_def Let_def sg_example_defs sg_eval_defs)

text \<open>
  C3. When a security group's instance is found and its inbound permissions equal the
  desired ones as sets (each permission of either list has an equal in the other),
  \<open>Reconcile\<close> returns no error and makes no call that changes the cloud: no revoke, no
  authorize, no create, no tagging, no delete. Lists with the same elements are one case.
\<close>

theorem Reconcile_settled_no_action:
  assumes "fst (findExistingSGInstance cloud grp) = Inr (Some instance)"
    and "permissionsEqualAsSets (InboundPermissions grp) (IpPermissions instance) \<or>
         set (InboundPermissions grp) = set (IpPermissions instance)"
  shows "fst (Reconcile ManagedByKey ManagedByValue cloud grp) = None \<and>
         filter isMutation (snd (snd (Reconcile ManagedByKey ManagedByValue cloud grp))) = []"
proof -
  from assms(2) have eq: "permissionsEqualAsSets (InboundPermissions grp) (IpPermissions instance)"
    using set_eq_permissionsEqualAsSets by blast
  obtain calls0 where f: "findExistingSGInstance cloud grp = (Inr (Some instance), calls0)"
    using assms(1) by (cases "findExistingSGInstance cloud grp") simp
  have c0: "filter isMutation calls0 = []"
    using f by (auto simp: findExistingSGInstance_def split: if_splits)
  obtain err grp' calls where m: "reconcileByModifySGInstance cloud grp instance = (err, grp', calls)"
    by (cases "reconcileByModifySGInstance cloud grp instance") auto
  from modify_settled [OF eq, of cloud] m have "err = None" "calls = []" by simp_all
  with f m c0 show ?thesis by (simp add: Reconcile_def)
qed

theorem Reconcile_settled_no_action_witness:
  "fst (findExistingSGInstance exampleCloud settledGroup) = Inr (Some exampleInstance) \<and>
   permissionsEqualAsSets (InboundPermissions settledGroup) (IpPermissions exampleInstance) \<and>
   fst (Reconcile ''managed-by'' ''alb-ingress-controller'' exampleCloud settledGroup) = None \<and>
   filter isMutation
     (snd (snd (Reconcile ''managed-by'' ''alb-ingress-controller'' exampleCloud settledGroup))) = []"
proof -
  have 1: "fst (findExistingSGInstance exampleCloud settledGroup) = Inr (Some exampleInstance)"
    by (simp add: findExistingSGInstance_def settledGroup_def exampleCloud_def)
  have 2: "permissionsEqualAsSets (InboundPermissions settledGroup) (IpPermissions exampleInstance)"
    by (simp add: permissionsEqualAsSets_def sg_example_defs sg_eval_defs)
  from Reconcile_settled_no_action [OF 1 disjI1 [OF 2]] 1 2 show ?thesis by blast
qed

text \<open>
  C9. Equality of user-ID-group pairs in the permission diff is decided by the group ID
  alone (a nil group ID reading as the empty string): two pairs are equal exactly when
  their group IDs are, whatever their user IDs and other fields. So the difference of two
  pair lists keeps the pairs of the first whose group ID is that of no pair of the second;
  two permissions that differ only in one pair are equal for the diff exactly when the
  two pairs have the same group ID; and when the group IDs are the same, exchanging one
  pair for the other anywhere in a permission's pair list gives a permission the diff does
  not tell apart from the first.
\<close>

theorem userIDGroupPair_equal_by_group_id:
  "(userIDGroupPairEquals a b \<longleftrightarrow> StringValue (GroupId a) = StringValue (GroupId b)) \<and>
   diffUserIDGroupPairs source target =
     filter (\<lambda>s. StringValue (GroupId s) \<notin> set (map (\<lambda>t. StringValue (GroupId t)) target))
       source \<and>
   (diffUserIDGroupPairs [a] [b] = [] \<longleftrightarrow>
      StringValue (GroupId a) = StringValue (GroupId b)) \<and>
   (ipPermissionEquals (p\<lparr>UserIdGroupPairs := [a]\<rparr>) (p\<lparr>UserIdGroupPairs := [b]\<rparr>) \<longleftrightarrow>
      StringValue (GroupId a) = StringValue (GroupId b)) \<and>
   (diffIPPermissions [p\<lparr>UserIdGroupPairs := [a]\<rparr>] [p\<lparr>UserIdGroupPairs := [b]\<rparr>] = [] \<longleftrightarrow>
      StringValue (GroupId a) = StringValue (GroupId b)) \<and>
   (GroupId a = GroupId b \<longrightarrow>
      userIDGroupPairEquals a b \<and>
      diffUserIDGroupPairs [a] [b] = [] \<and>
      ipPermissionEquals (p\<lparr>UserIdGroupPairs := pre @ a # post\<rparr>)
        (p\<lparr>UserIdGroupPairs := pre @ b # post\<rparr>) \<and>
      diffIPPermissions [p\<lparr>UserIdGroupPairs := pre @ a # post\<rparr>]
        [p\<lparr>UserIdGroupPairs := pre @ b # post\<rparr>] = [])"
proof -
  have 1: "userIDGroupPairEquals a b \<longleftrightarrow> StringValue (GroupId a) = StringValue (GroupId b)"
    by (simp add: userIDGroupPairEquals_def)
  have 2: "diffUserIDGroupPairs source target =
     filter (\<lambda>s. StringValue (GroupId s) \<notin> set (map (\<lambda>t. StringValue (GroupId t)) target))
       source"
  proof -
    have "filter (\<lambda>s. \<not> list_ex (userIDGroupPairEquals s) target) source =
          filter (\<lambda>s. StringValue (GroupId s) \<notin> set (map (\<lambda>t. StringValue (GroupId t)) target))
            source"
      by (rule filter_cong) (auto simp: list_ex_iff userIDGroupPairEquals_def)
    then show ?thesis by (simp add: diffUserIDGroupPairs_def diffLoop_filter)
  qed
  have 3: "diffUserIDGroupPairs [a] [b] = [] \<longleftrightarrow>
      StringValue (GroupId a) = StringValue (GroupId b)"
    by (simp add: diffUserIDGroupPairs_def userIDGroupPairEquals_def)
  have 4: "ipPermissionEquals (p\<lparr>UserIdGroupPairs := [a]\<rparr>) (p\<lparr>UserIdGroupPairs := [b]\<rparr>) \<longleftrightarrow>
      StringValue (GroupId a) = StringValue (GroupId b)"
    by (simp add: ipPermissionEquals_iff)
  have 5: "diffIPPermissions [p\<lparr>UserIdGroupPairs := [a]\<rparr>] [p\<lparr>UserIdGroupPairs := [b]\<rparr>] = [] \<longleftrightarrow>
      StringValue (GroupId a) = StringValue (GroupId b)"
    using 4 by (simp add: diffIPPermissions_def)
  have 6: "userIDGroupPairEquals a b \<and>
      diffUserIDGroupPairs [a] [b] = [] \<and>
      ipPermissionEquals (p\<lparr>UserIdGroupPairs := pre @ a # post\<rparr>)
        (p\<lparr>UserIdGroupPairs := pre @ b # post\<rparr>) \<and>
      diffIPPermissions [p\<lparr>UserIdGroupPairs := pre @ a # post\<rparr>]
        [p\<lparr>UserIdGroupPairs := pre @ b # post\<rparr>] = []"
    if eq: "GroupId a = GroupId b"
  proof -
    have e: "ipPermissionEquals (p\<lparr>UserIdGroupPairs := pre @ a # post\<rparr>)
               (p\<lparr>UserIdGroupPairs := pre @ b # post\<rparr>)"
      using eq by (simp add: ipPermissionEquals_iff)
    then have "diffIPPermissions [p\<lparr>UserIdGroupPairs := pre @ a # post\<rparr>]
             [p\<lparr>UserIdGroupPairs := pre @ b # post\<rparr>] = []"
      by (simp add: diffIPPermissions_def)
    with e eq 1 3 show ?thesis by simp
  qed
  from 1 2 3 4 5 6 show ?thesis by blast
qed

theorem userIDGroupPair_equal_by_group_id_witness:
  "pairOf ''sg-7'' ''111111111111'' \<noteq> pairOf ''sg-7'' ''222222222222'' \<and>
   userIDGroupPairEquals (pairOf ''sg-7'' ''111111111111'') (pairOf ''sg-7'' ''222222222222'') \<and>
   diffIPPermissions [sgPermission [pairOf ''sg-7'' ''111111111111'']]
     [sgPermission [pairOf ''sg-7'' ''222222222222'']] = [] \<and>
   \<not> userIDGroupPairEquals (pairOf ''sg-7'' ''111111111111'') (pairOf ''sg-8'' ''111111111111'') \<and>
   diffUserIDGroupPairs [pairOf ''sg-7'' ''111111111111''] [pairOf ''sg-8'' ''111111111111''] =
     [pairOf ''sg-7'' ''111111111111''] \<and>
   diffIPPermissions [sgPermission [pairOf ''sg-7'' ''111111111111'']]
     [sgPermission [pairOf ''sg-8'' ''111111111111'']] =
     [sgPermission [pairOf ''sg-7'' ''111111111111'']]"
proof -
  have h: "GroupId (pairOf ''sg-7'' ''111111111111'') = GroupId (pairOf ''sg-7'' ''222222222222'')"
    by (simp add: pairOf_def)
  note same = userIDGroupPair_equal_by_group_id [where a = "pairOf ''sg-7'' ''111111111111''"
      and b = "pairOf ''sg-7'' ''222222222222''" and p = "sgPermission []" and pre = "[]"
      and post = "[]" and source = "[]" and target = "[]"]
  note other = userIDGroupPair_equal_by_group_id [where a = "pairOf ''sg-7'' ''111111111111''"
      and b = "pairOf ''sg-8'' ''111111111111''" and p = "sgPermission []" and pre = "[]"
      and post = "[]" and source = "[pairOf ''sg-7'' ''111111111111'']"
      and target = "[pairOf ''sg-8'' ''111111111111'']"]
  have 1: "pairOf ''sg-7'' ''111111111111'' \<noteq> pairOf ''sg-7'' ''222222222222''"
    by (simp add: pairOf_def)
  from same h have 2:
    "userIDGroupPairEquals (pairOf ''sg-7'' ''111111111111'') (pairOf ''sg-7'' ''222222222222'')"
    "diffIPPermissions [sgPermission [pairOf ''sg-7'' ''111111111111'']]
       [sgPermission [pairOf ''sg-7'' ''222222222222'']] = []"
    by (simp_all add: sgPermission_def)
  have ne: "StringValue (GroupId (pairOf ''sg-7'' ''111111111111'')) \<noteq>
            StringValue (GroupId (pairOf ''sg-8'' ''111111111111''))"
    by (simp add: pairOf_def StringValue_def)
  from other ne have 3:
    "\<not> userIDGroupPairEquals (pairOf ''sg-7'' ''111111111111'') (pairOf ''sg-8'' ''111111111111'')"
    by blast
  from other ne have 4:
    "diffUserIDGroupPairs [pairOf ''sg-7'' ''111111111111''] [pairOf ''sg-8'' ''111111111111''] =
     [pairOf ''sg-7'' ''111111111111'']"
    by simp
  from other ne have "diffIPPermissions [sgPermission [] \<lparr>UserIdGroupPairs := [pairOf ''sg-7'' ''111111111111'']\<rparr>]
     [sgPermission [] \<lparr>UserIdGroupPairs := [pairOf ''sg-8'' ''111111111111'']\<rparr>] \<noteq> []"
    by blast
  then have 5: "diffIPPermissions [sgPermission [pairOf ''sg-7'' ''111111111111'']]
     [sgPermission [pairOf ''sg-8'' ''111111111111'']] =
     [sgPermission [pairOf ''sg-7'' ''111111111111'']]"
    by (simp add: sgPermission_def diffIPPermissions_def split: if_splits)
  from 1 2 3 4 5 show ?thesis by (intro conjI)
qed

text \<open>
  C4, as the code has it. When creating a security group succeeds (the create call, the
  ingress authorization and the tagging all return no error), the new group has been
  tagged by one \<open>CreateTags\<close> call on the ID the create call returned, made after the
  create and authorize calls, with exactly two tags: \<open>Name\<close> with the group's name, and
  the managed-by key with the managed-by value. The security-group controller sets no
  \<open>group\<close> tag.
\<close>

theorem reconcileByNewSGInstance_tags:
  assumes "fst (reconcileByNewSGInstance ManagedByKey ManagedByValue cloud grp) = None"
  shows "\<exists>gid. CreateSecurityGroupWithContext cloud (GroupName grp)
                 (Some ''Instance SecurityGroup created by alb-ingress-controller'') = Inr gid \<and>
           snd (snd (reconcileByNewSGInstance ManagedByKey ManagedByValue cloud grp)) =
             [CallCreateSecurityGroup (GroupName grp)
                (Some ''Instance SecurityGroup created by alb-ingress-controller''),
              CallAuthorizeIngress gid (InboundPermissions grp),
              CallCreateTags [gid]
                [\<lparr>Key = Some ''Name'', Val = GroupName grp\<rparr>,
                 \<lparr>Key = Some ManagedByKey, Val = Some ManagedByValue\<rparr>]]"
  using assms
  by (auto simp: reconcileByNewSGInstance_def Let_def split: sum.splits option.splits)

theorem reconcileByNewSGInstance_tags_witness:
  "fst (reconcileByNewSGInstance ''managed-by'' ''alb-ingress-controller'' exampleCloud
          exampleGroup) = None \<and>
   snd (snd (reconcileByNewSGInstance ''managed-by'' ''alb-ingress-controller'' exampleCloud
          exampleGroup)) =
     [CallCreateSecurityGroup (Some ''web'')
        (Some ''Instance SecurityGroup created by alb-ingress-controller''),
      CallAuthorizeIngress (Some ''sg-new'') (InboundPermissions exampleGroup),
      CallCreateTags [Some ''sg-new'']
        [\<lparr>Key = Some ''Name'', Val = Some ''web''\<rparr>,
         \<lparr>Key = Some ''managed-by'', Val = Some ''alb-ingress-controller''\<rparr>]]"
proof -
  have h: "fst (reconcileByNewSGInstance ''managed-by'' ''alb-ingress-controller'' exampleCloud
          exampleGroup) = None"
    by (simp add: reconcileByNewSGInstance_def Let_def exampleCloud_def)
  from reconcileByNewSGInstance_tags [OF h] h show ?thesis
    by (simp add: exampleCloud_def exampleGroup_def)
qed

text \<open>
  C4 as stated fails: the group created for \<open>exampleGroup\<close> in a cloud where every call
  succeeds is tagged \<open>Name\<close> and \<open>managed-by\<close>, and carries no \<open>group\<close> tag.
\<close>

theorem new_security_group_has_no_group_tag:
  "fst (reconcileByNewSGInstance ''managed-by'' ''alb-ingress-controller'' exampleCloud
          exampleGroup) = None \<and>
   createdTagKeys (snd (snd (reconcileByNewSGInstance ''managed-by'' ''alb-ingress-controller''
          exampleCloud exampleGroup))) = [''Name'', ''managed-by''] \<and>
   ''group'' \<notin> set (createdTagKeys (snd (snd (reconcileByNewSGInstance ''managed-by''
          ''alb-ingress-controller'' exampleCloud exampleGroup))))"
  by (simp add: reconcileByNewSGInstance_def Let_def exampleCloud_def exampleGroup_def
        StringValue_def)



section \<open>The ingress group reconciler (controllers/ingress)\<close>

text \<open>
  \<open>GroupReconciler.Reconcile\<close> runs its collaborators in a fixed sequence and returns at
  the first error. The collaborators (group loader, finalizer manager, model builder, stack
  marshaller, stack deployer, the load balancer's ARN token) are interfaces implemented
  outside this file: the reconciler is modelled for every implementation, given by the
  answer to each call. Every collaborator method is called at most once in a reconcile, so
  answers that depend on earlier calls are covered. The steps taken are recorded in order.
\<close>

type_synonym GroupID = string
type_synonym Ingress = string

record Group =
  ID :: GroupID
  Members :: "Ingress list"
  InactiveMembers :: "Ingress list"

record ('req, 'stack, 'lb) GroupReconciler =
  DecodeGroupIDFromReconcileRequest :: "'req \<Rightarrow> GroupID"
  groupLoader_Load :: "GroupID \<Rightarrow> error + Group"
  finalizerManager_AddGroupFinalizer :: "GroupID \<Rightarrow> Ingress list \<Rightarrow> error option"
  finalizerManager_RemoveGroupFinalizer :: "GroupID \<Rightarrow> Ingress list \<Rightarrow> error option"
  modelBuilder_Build :: "Group \<Rightarrow> error + ('stack \<times> 'lb)"
  stackMarshaller_Marshal :: "'stack \<Rightarrow> error + string"
  stackDeployer_Deploy :: "'stack \<Rightarrow> error option"
  LoadBalancerARN_Resolve :: "'lb \<Rightarrow> error + string"

datatype ('stack, 'lb) step =
    StepLoad GroupID
  | StepAddGroupFinalizer GroupID "Ingress list"
  | StepBuild Group
  | StepMarshal 'stack
  | StepDeploy 'stack
  | StepResolveARN 'lb
  | StepRemoveGroupFinalizer GroupID "Ingress list"

definition GroupReconciler_Reconcile ::
  "('req, 'stack, 'lb) GroupReconciler \<Rightarrow> 'req \<Rightarrow> error option \<times> ('stack, 'lb) step list" where
  "GroupReconciler_Reconcile r req =
     (let groupID = DecodeGroupIDFromReconcileRequest r req;
          steps1 = [StepLoad groupID]
      in case groupLoader_Load r groupID of
           Inl err \<Rightarrow> (Some err, steps1)
         | Inr grp \<Rightarrow>
      (let steps2 = steps1 @ [StepAddGroupFinalizer groupID (Members grp)]
       in case finalizerManager_AddGroupFinalizer r groupID (Members grp) of
            Some err \<Rightarrow> (Some err, steps2)
          | None \<Rightarrow>
      (let steps3 = steps2 @ [StepBuild grp]
       in case modelBuilder_Build r grp of
            Inl err \<Rightarrow> (Some err, steps3)
          | Inr (stack, lb) \<Rightarrow>
      (let steps4 = steps3 @ [StepMarshal stack]
       in case stackMarshaller_Marshal r stack of
            Inl err \<Rightarrow> (Some err, steps4)
          | Inr stackJSON \<Rightarrow>
      (let steps5 = steps4 @ [StepDeploy stack]
       in case stackDeployer_Deploy r stack of
            Some err \<Rightarrow> (Some err, steps5)
          | None \<Rightarrow>
      (let steps6 = steps5 @ [StepResolveARN lb]
       in case LoadBalancerARN_Resolve r lb of
            Inl err \<Rightarrow> (Some err, steps6)
          | Inr lbARN \<Rightarrow>
      (let steps7 = steps6 @ [StepRemoveGroupFinalizer groupID (InactiveMembers grp)]
       in case finalizerManager_RemoveGroupFinalizer r groupID (InactiveMembers grp) of
            Some err \<Rightarrow> (Some err, steps7)
          | None \<Rightarrow> (None, steps7))))))))"

fun isRemoveGroupFinalizer :: "('stack, 'lb) step \<Rightarrow> bool" where
  "isRemoveGroupFinalizer (StepRemoveGroupFinalizer _ _) = True"
| "isRemoveGroupFinalizer _ = False"

text \<open>\<open>firstThen a b steps\<close>: step \<open>b\<close> is taken, and step \<open>a\<close> before it.\<close>

fun firstThen :: "'a \<Rightarrow> 'a \<Rightarrow> 'a list \<Rightarrow> bool" where
  "firstThen a b [] = False"
| "firstThen a b (s # steps) = (if s = a then List.member steps b else firstThen a b steps)"

text \<open>An example: a group with one active and one inactive member, every call succeeding.\<close>

definition exampleIngressGroup :: Group where
  "exampleIngressGroup = \<lparr>ID = ''web'', Members = [''default/a''], InactiveMembers = [''default/b'']\<rparr>"

definition exampleReconciler :: "(string, string, string) GroupReconciler" where
  "exampleReconciler =
     \<lparr>DecodeGroupIDFromReconcileRequest = (\<lambda>req. req),
      groupLoader_Load = (\<lambda>gid. Inr exampleIngressGroup),
      finalizerManager_AddGroupFinalizer = (\<lambda>gid members. None),
      finalizerManager_RemoveGroupFinalizer = (\<lambda>gid members. None),
      modelBuilder_Build = (\<lambda>grp. Inr (''stack'', ''lb'')),
      stackMarshaller_Marshal = (\<lambda>stack. Inr ''{}''),
      stackDeployer_Deploy = (\<lambda>stack. None),
      LoadBalancerARN_Resolve = (\<lambda>lb. Inr ''arn:lb'')\<rparr>"

text \<open>The same, but the deploy fails.\<close>

definition failingDeployReconciler :: "(string, string, string) GroupReconciler" where
  "failingDeployReconciler =
     exampleReconciler\<lparr>stackDeployer_Deploy := (\<lambda>stack. Some (Error ''throttled''))\<rparr>"


subsection \<open>Properties of the group reconciler\<close>

text \<open>
  C2. In every reconcile of a group: if the model is built, the group-finalizer was added
  to the group's active members before, and that call returned no error; if the finalizer
  is removed, it is removed from the group's inactive members, as the last step, after a
  deploy that returned no error. If loading the group, adding the finalizer, building the
  model or deploying returns an error, the reconcile returns that error and no finalizer
  is removed.
\<close>

theorem Reconcile_finalizer_order:
  assumes "GroupReconciler_Reconcile r req = (err, steps)"
    and "gid = DecodeGroupIDFromReconcileRequest r req"
  shows "(StepBuild g \<in> set steps \<longrightarrow>
            groupLoader_Load r gid = Inr g \<and>
            finalizerManager_AddGroupFinalizer r gid (Members g) = None \<and>
            firstThen (StepAddGroupFinalizer gid (Members g)) (StepBuild g) steps) \<and>
         (StepRemoveGroupFinalizer gid' ms \<in> set steps \<longrightarrow>
            (\<exists>g stack lb. groupLoader_Load r gid = Inr g \<and> gid' = gid \<and>
               ms = InactiveMembers g \<and>
               modelBuilder_Build r g = Inr (stack, lb) \<and>
               stackDeployer_Deploy r stack = None \<and>
               firstThen (StepDeploy stack) (StepRemoveGroupFinalizer gid ms) steps \<and>
               last steps = StepRemoveGroupFinalizer gid ms)) \<and>
         (groupLoader_Load r gid = Inl e \<longrightarrow>
            err = Some e \<and> \<not> list_ex isRemoveGroupFinalizer steps) \<and>
         (groupLoader_Load r gid = Inr g \<and>
          finalizerManager_AddGroupFinalizer r gid (Members g) = Some e \<longrightarrow>
            err = Some e \<and> \<not> list_ex isRemoveGroupFinalizer steps) \<and>
         (groupLoader_Load r gid = Inr g \<and>
          finalizerManager_AddGroupFinalizer r gid (Members g) = None \<and>
          modelBuilder_Build r g = Inl e \<longrightarrow>
            err = Some e \<and> \<not> list_ex isRemoveGroupFinalizer steps) \<and>
         (groupLoader_Load r gid = Inr g \<and>
          finalizerManager_AddGroupFinalizer r gid (Members g) = None \<and>
          modelBuilder_Build r g = Inr (stack, lb) \<and>
          stackMarshaller_Marshal r stack = Inr json \<and>
          stackDeployer_Deploy r stack = Some e \<longrightarrow>
            err = Some e \<and> \<not> list_ex isRemoveGroupFinalizer steps)"
  using assms
  by (auto simp: GroupReconciler_Reconcile_def Let_def
        split: sum.splits option.splits prod.splits if_splits)


theorem Reconcile_finalizer_order_witness:
  "GroupReconciler_Reconcile exampleReconciler ''web'' =
     (None,
      [StepLoad ''web'', StepAddGroupFinalizer ''web'' [''default/a''],
       StepBuild exampleIngressGroup, StepMarshal ''stack'', StepDeploy ''stack'',
       StepResolveARN ''lb'', StepRemoveGroupFinalizer ''web'' [''default/b'']]) \<and>
   firstThen (StepAddGroupFinalizer ''web'' [''default/a'']) (StepBuild exampleIngressGroup)
     (snd (GroupReconciler_Reconcile exampleReconciler ''web'')) \<and>
   firstThen (StepDeploy ''stack'') (StepRemoveGroupFinalizer ''web'' [''default/b''])
     (snd (GroupReconciler_Reconcile exampleReconciler ''web'')) \<and>
   fst (GroupReconciler_Reconcile failingDeployReconciler ''web'') = Some (Error ''throttled'') \<and>
   \<not> list_ex isRemoveGroupFinalizer (snd (GroupReconciler_Reconcile failingDeployReconciler ''web''))"
proof -
  have ok: "GroupReconciler_Reconcile exampleReconciler ''web'' =
     (None,
      [StepLoad ''web'', StepAddGroupFinalizer ''web'' [''default/a''],
       StepBuild exampleIngressGroup, StepMarshal ''stack'', StepDeploy ''stack'',
       StepResolveARN ''lb'', StepRemoveGroupFinalizer ''web'' [''default/b'']])"
    by (simp add: GroupReconciler_Reconcile_def Let_def exampleReconciler_def
          exampleIngressGroup_def)
  obtain err steps where bad: "GroupReconciler_Reconcile failingDeployReconciler ''web'' = (err, steps)"
    by (cases "GroupReconciler_Reconcile failingDeployReconciler ''web''") auto
  have gid1: "''web'' = DecodeGroupIDFromReconcileRequest exampleReconciler ''web''"
    by (simp add: exampleReconciler_def)
  have gid2: "''web'' = DecodeGroupIDFromReconcileRequest failingDeployReconciler ''web''"
    by (simp add: exampleReconciler_def failingDeployReconciler_def)
  from Reconcile_finalizer_order [OF ok gid1, where g = exampleIngressGroup
      and gid' = "''web''" and ms = "[''default/b'']"]
  have a: "firstThen (StepAddGroupFinalizer ''web'' [''default/a'']) (StepBuild exampleIngressGroup)
     (snd (GroupReconciler_Reconcile exampleReconciler ''web''))"
    and b: "firstThen (StepDeploy ''stack'') (StepRemoveGroupFinalizer ''web'' [''default/b''])
     (snd (GroupReconciler_Reconcile exampleReconciler ''web''))"
    unfolding ok snd_conv by (simp_all add: exampleReconciler_def exampleIngressGroup_def)
  from Reconcile_finalizer_order [OF bad gid2, where g = exampleIngressGroup
      and stack = "''stack''" and lb = "''lb''" and json = "''{}''" and e = "Error ''throttled''"]
  have c: "err = Some (Error ''throttled'') \<and> \<not> list_ex isRemoveGroupFinalizer steps"
    by (simp add: exampleReconciler_def failingDeployReconciler_def)
  from ok a b c bad show ?thesis by simp
qed


section \<open>Go strings\<close>

text \<open>
  A Go string is its bytes, a \<open>string\<close> here. \<open>strings.Split\<close> is modelled for the
  one-byte separators the controller uses (\<open>,\<close> and \<open>=\<close>): it cuts at every separator
  and always returns at least one part.
\<close>

fun Split :: "string \<Rightarrow> char \<Rightarrow> string list" where
  "Split [] sep = [[]]"
| "Split (c # s) sep =
     (if c = sep then [] # Split s sep
      else (case Split s sep of p # ps \<Rightarrow> (c # p) # ps | [] \<Rightarrow> [[c]]))"

fun Join :: "string list \<Rightarrow> string \<Rightarrow> string" where
  "Join [] sep = []"
| "Join [a] sep = a"
| "Join (a # b # rest) sep = a @ sep @ Join (b # rest) sep"

definition HasPrefix :: "string \<Rightarrow> string \<Rightarrow> bool" where
  "HasPrefix s pfx \<longleftrightarrow> take (length pfx) s = pfx"

text \<open>
  \<open>strings.TrimSpace\<close> removes leading and trailing white space as \<open>unicode.IsSpace\<close>
  defines it. \<open>spaceRunes\<close> lists the UTF-8 encodings of those code points: tab, line
  feed, vertical tab, form feed, carriage return, space, U+0085, U+00A0, U+1680,
  U+2000 to U+200A, U+2028, U+2029, U+202F, U+205F and U+3000.
\<close>

definition spaceRunes :: "string list" where
  "spaceRunes =
     [[CHR 0x09], [CHR 0x0A], [CHR 0x0B], [CHR 0x0C], [CHR 0x0D], [CHR 0x20],
      [CHR 0xC2, CHR 0x85], [CHR 0xC2, CHR 0xA0],
      [CHR 0xE1, CHR 0x9A, CHR 0x80],
      [CHR 0xE2, CHR 0x80, CHR 0x80], [CHR 0xE2, CHR 0x80, CHR 0x81],
      [CHR 0xE2, CHR 0x80, CHR 0x82], [CHR 0xE2, CHR 0x80, CHR 0x83],
      [CHR 0xE2, CHR 0x80, CHR 0x84], [CHR 0xE2, CHR 0x80, CHR 0x85],
      [CHR 0xE2, CHR 0x80, CHR 0x86], [CHR 0xE2, CHR 0x80, CHR 0x87],
      [CHR 0xE2, CHR 0x80, CHR 0x88], [CHR 0xE2, CHR 0x80, CHR 0x89],
      [CHR 0xE2, CHR 0x80, CHR 0x8A],
      [CHR 0xE2, CHR 0x80, CHR 0xA8], [CHR 0xE2, CHR 0x80, CHR 0xA9],
      [CHR 0xE2, CHR 0x80, CHR 0xAF], [CHR 0xE2, CHR 0x81, CHR 0x9F],
      [CHR 0xE3, CHR 0x80, CHR 0x80]]"

text \<open>\<open>stripRune runes s\<close>: \<open>s\<close> without its first rune, when that is one of \<open>runes\<close>.\<close>

fun stripRune :: "string list \<Rightarrow> string \<Rightarrow> string option" where
  "stripRune [] s = None"
| "stripRune (r # runes) s =
     (if r \<noteq> [] \<and> take (length r) s = r then Some (drop (length r) s)
      else stripRune runes s)"

lemma stripRune_shorter: "stripRune runes s = Some rest \<Longrightarrow> length rest < length s"
proof (induction runes)
  case Nil
  then show ?case by simp
next
  case (Cons r runes)
  show ?case
  proof (cases "r \<noteq> [] \<and> take (length r) s = r")
    case True
    with Cons.prems have rest: "rest = drop (length r) s" by simp
    from True have "s \<noteq> []" by auto
    with True rest show ?thesis by (cases r) auto
  next
    case False
    with Cons show ?thesis by auto
  qed
qed

function TrimLeftRunes :: "string list \<Rightarrow> string \<Rightarrow> string" where
  "TrimLeftRunes runes s =
     (case stripRune runes s of None \<Rightarrow> s | Some rest \<Rightarrow> TrimLeftRunes runes rest)"
  by pat_completeness auto
termination
  by (relation "measure (\<lambda>(runes, s). length s)") (auto dest: stripRune_shorter)

text \<open>The trailing white space of \<open>s\<close> is the leading white space of its reverse.\<close>

definition TrimSpace :: "string \<Rightarrow> string" where
  "TrimSpace s = rev (TrimLeftRunes (map rev spaceRunes) (rev (TrimLeftRunes spaceRunes s)))"

declare TrimLeftRunes.simps [simp del]

section \<open>internal/ingress/annotations/targetgroup/main.go\<close>

text \<open>
  The parser reads annotations through \<open>parser.GetStringAnnotation\<close> and
  \<open>parser.GetInt64Annotation\<close>, which answer with a value or an error (the annotation is
  missing or malformed); these, the configured default target type, and the \<open>Set\<close>
  method and zero value of \<open>albelbv2.TargetGroupAttributes\<close> are declared outside this
  file and are parameters of the model. \<open>errors.NewInvalidAnnotationContent\<close> builds an
  error from the annotation's name and the offending value.
\<close>

datatype tg_error = InvalidAnnotationContent string string | TgError string

record 'attrs ParseEnv =
  DefaultTargetType :: string
  GetStringAnnotation :: "string \<Rightarrow> tg_error + string"
  GetInt64Annotation :: "string \<Rightarrow> tg_error + 64 word"
  noAttributes :: 'attrs
  Attributes_Set :: "string \<Rightarrow> string \<Rightarrow> 'attrs \<Rightarrow> 'attrs"

record 'attrs Config =
  Attributes :: 'attrs
  BackendProtocol :: "string option"
  HealthyThresholdCount :: "64 word option"
  SuccessCodes :: "string option"
  TargetType :: "string option"
  UnhealthyThresholdCount :: "64 word option"

definition DefaultBackendProtocol :: string where "DefaultBackendProtocol = ''HTTP''"
definition DefaultHealthyThresholdCount :: "64 word" where "DefaultHealthyThresholdCount = 2"
definition DefaultUnhealthyThresholdCount :: "64 word" where "DefaultUnhealthyThresholdCount = 2"
definition DefaultSuccessCodes :: string where "DefaultSuccessCodes = ''200''"
definition TargetTypeEnumInstance :: string where "TargetTypeEnumInstance = ''instance''"
definition TargetTypeEnumIp :: string where "TargetTypeEnumIp = ''ip''"

text \<open>
  Modelled from the spec: \<open>util.NewAWSStringSlice\<close>, which is not among the sources at
  hand. List-valued annotations are comma-separated with whitespace trim and empty-token
  drop.
\<close>

definition NewAWSStringSlice :: "string \<Rightarrow> string list" where
  "NewAWSStringSlice s = filter (\<lambda>p. p \<noteq> []) (map TrimSpace (Split s CHR '',''))"

text \<open>
  The loop over the raw attributes: an empty token is skipped, a token that does not split
  at \<open>=\<close> into exactly two parts is appended to \<open>badAttrs\<close>, any other sets an attribute.
\<close>

fun attributesLoop ::
  "'attrs ParseEnv \<Rightarrow> string list \<Rightarrow> 'attrs \<Rightarrow> string list \<Rightarrow> 'attrs \<times> string list" where
  "attributesLoop env [] attributes badAttrs = (attributes, badAttrs)"
| "attributesLoop env (rawAttr # rawAttrs) attributes badAttrs =
     (let parts = Split rawAttr CHR ''=''
      in if rawAttr = [] then attributesLoop env rawAttrs attributes badAttrs
         else if length parts \<noteq> 2 then attributesLoop env rawAttrs attributes (badAttrs @ [rawAttr])
         else attributesLoop env rawAttrs (Attributes_Set env (parts ! 0) (parts ! 1) attributes)
                badAttrs)"

definition orDefault :: "tg_error + 'a \<Rightarrow> 'a \<Rightarrow> 'a" where
  "orDefault r d = (case r of Inl err \<Rightarrow> d | Inr v \<Rightarrow> v)"

definition Parse :: "'attrs ParseEnv \<Rightarrow> tg_error + 'attrs Config" where
  "Parse env =
     (let targetType = orDefault (GetStringAnnotation env ''target-type'') (DefaultTargetType env)
      in if targetType \<noteq> TargetTypeEnumInstance \<and> targetType \<noteq> ''pod''
         then Inl (InvalidAnnotationContent ''target-type'' targetType)
         else
          (let backendProtocol =
                 orDefault (GetStringAnnotation env ''backend-protocol'') DefaultBackendProtocol;
               healthyThresholdCount =
                 orDefault (GetInt64Annotation env ''healthy-threshold-count'')
                   DefaultHealthyThresholdCount;
               unhealthyThresholdCount =
                 orDefault (GetInt64Annotation env ''unhealthy-threshold-count'')
                   DefaultUnhealthyThresholdCount;
               successCodes0 =
                 orDefault (GetStringAnnotation env ''successCodes'') DefaultSuccessCodes;
               successCodes =
                 (case GetStringAnnotation env ''success-codes'' of
                    Inr s \<Rightarrow> s | Inl err \<Rightarrow> successCodes0);
               (attributes, badAttrs) =
                 (case GetStringAnnotation env ''target-group-attributes'' of
                    Inr tgAttr \<Rightarrow>
                      attributesLoop env (NewAWSStringSlice tgAttr) (noAttributes env) []
                  | Inl err \<Rightarrow> (noAttributes env, []))
           in if length badAttrs > 0
              then Inl (TgError (''Unable to parse `'' @ Join badAttrs '', '' @
                                 ''` into Key=Value pair(s)''))
              else Inr \<lparr>Attributes = attributes,
                        BackendProtocol = Some backendProtocol,
                        HealthyThresholdCount = Some healthyThresholdCount,
                        SuccessCodes = Some successCodes,
                        TargetType = Some targetType,
                        UnhealthyThresholdCount = Some unhealthyThresholdCount\<rparr>))"

text \<open>
  An example: annotations as an association list, attributes as the list of the pairs set,
  \<open>instance\<close> as the default target type.
\<close>

definition annotationsEnv :: "(string \<times> string) list \<Rightarrow> (string \<times> string) list ParseEnv" where
  "annotationsEnv ann =
     \<lparr>DefaultTargetType = ''instance'',
      GetStringAnnotation =
        (\<lambda>name. case map_of ann name of None \<Rightarrow> Inl (TgError ''missing annotation'')
                 | Some v \<Rightarrow> Inr v),
      GetInt64Annotation = (\<lambda>name. Inl (TgError ''missing annotation'')),
      noAttributes = [],
      Attributes_Set = (\<lambda>k v attrs. attrs @ [(k, v)])\<rparr>"


subsection \<open>The tags annotation of the controller package\<close>

text \<open>
  \<open>stringToAwsSlice\<close> and \<open>stringToTags\<close> of the controller's annotation file. A raw
  tag that is empty is skipped; one with fewer than two parts is logged and skipped; any
  other gives a tag of its first two parts.
\<close>

record Elbv2Tag =
  TagKey :: "string option"
  TagValue :: "string option"

fun awsSliceLoop :: "string list \<Rightarrow> string list \<Rightarrow> string list" where
  "awsSliceLoop [] out = out"
| "awsSliceLoop (part # parts) out =
     (let p = TrimSpace part
      in if p = [] then awsSliceLoop parts out else awsSliceLoop parts (out @ [p]))"

definition stringToAwsSlice :: "string \<Rightarrow> string list" where
  "stringToAwsSlice s = awsSliceLoop (Split s CHR '','') []"

fun tagsLoop :: "string list \<Rightarrow> Elbv2Tag list \<Rightarrow> Elbv2Tag list" where
  "tagsLoop [] out = out"
| "tagsLoop (rawTag # rawTags) out =
     (let parts = Split rawTag CHR ''=''
      in if rawTag = [] then tagsLoop rawTags out
         else if length parts < 2 then tagsLoop rawTags out
         else tagsLoop rawTags (out @ [\<lparr>TagKey = Some (parts ! 0), TagValue = Some (parts ! 1)\<rparr>]))"

definition stringToTags :: "string \<Rightarrow> Elbv2Tag list" where
  "stringToTags s = tagsLoop (stringToAwsSlice s) []"

subsection \<open>Properties of the key-value annotations\<close>

lemmas trim_eval_defs = TrimSpace_def spaceRunes_def TrimLeftRunes.simps

lemmas parse_eval_defs =
  Parse_def annotationsEnv_def orDefault_def TargetTypeEnumInstance_def NewAWSStringSlice_def
  DefaultBackendProtocol_def DefaultHealthyThresholdCount_def DefaultUnhealthyThresholdCount_def
  DefaultSuccessCodes_def Let_def

lemma Split_not_Nil: "Split s sep \<noteq> []"
  by (induction s) (auto split: list.splits)

lemma awsSliceLoop_filter:
  "awsSliceLoop parts out = out @ filter (\<lambda>p. p \<noteq> []) (map TrimSpace parts)"
  by (induction parts arbitrary: out) (auto simp: Let_def)

lemma stringToAwsSlice_filter:
  "stringToAwsSlice s = filter (\<lambda>p. p \<noteq> []) (map TrimSpace (Split s CHR '',''))"
  by (simp add: stringToAwsSlice_def awsSliceLoop_filter)

lemma stringToAwsSlice_nonempty: "t \<in> set (stringToAwsSlice s) \<Longrightarrow> t \<noteq> []"
  by (simp add: stringToAwsSlice_filter)

lemma NewAWSStringSlice_nonempty: "t \<in> set (NewAWSStringSlice s) \<Longrightarrow> t \<noteq> []"
  by (simp add: NewAWSStringSlice_def)

lemma attributesLoop_bad:
  "snd (attributesLoop env toks attrs bad) =
     bad @ filter (\<lambda>t. t \<noteq> [] \<and> length (Split t CHR ''='') \<noteq> 2) toks"
  by (induction toks arbitrary: attrs bad) (auto simp: Let_def)

lemma attributesLoop_bad_slice:
  "snd (attributesLoop env (NewAWSStringSlice s) attrs []) =
     filter (\<lambda>t. length (Split t CHR ''='') \<noteq> 2) (NewAWSStringSlice s)"
proof -
  have "filter (\<lambda>t. t \<noteq> [] \<and> length (Split t CHR ''='') \<noteq> 2) (NewAWSStringSlice s) =
        filter (\<lambda>t. length (Split t CHR ''='') \<noteq> 2) (NewAWSStringSlice s)"
    by (rule filter_cong) (auto dest: NewAWSStringSlice_nonempty)
  then show ?thesis by (simp add: attributesLoop_bad)
qed

lemma tagsLoop_map:
  "tagsLoop toks out =
     out @ map (\<lambda>t. \<lparr>TagKey = Some (Split t CHR ''='' ! 0), TagValue = Some (Split t CHR ''='' ! 1)\<rparr>)
             (filter (\<lambda>t. t \<noteq> [] \<and> 2 \<le> length (Split t CHR ''='')) toks)"
  by (induction toks arbitrary: out) (auto simp: Let_def)

lemma stringToTags_map:
  "stringToTags s =
     map (\<lambda>t. \<lparr>TagKey = Some (Split t CHR ''='' ! 0), TagValue = Some (Split t CHR ''='' ! 1)\<rparr>)
       (filter (\<lambda>t. 2 \<le> length (Split t CHR ''='')) (stringToAwsSlice s))"
proof -
  have "filter (\<lambda>t. t \<noteq> [] \<and> 2 \<le> length (Split t CHR ''='')) (stringToAwsSlice s) =
        filter (\<lambda>t. 2 \<le> length (Split t CHR ''='')) (stringToAwsSlice s)"
    by (rule filter_cong) (auto dest: stringToAwsSlice_nonempty)
  then show ?thesis by (simp add: stringToTags_def tagsLoop_map)
qed

text \<open>The effective target type, and whether the attributes annotation is well formed.\<close>

definition effectiveTargetType :: "'attrs ParseEnv \<Rightarrow> string" where
  "effectiveTargetType env =
     (case GetStringAnnotation env ''target-type'' of
        Inl err \<Rightarrow> DefaultTargetType env | Inr v \<Rightarrow> v)"

definition badAttributes :: "'attrs ParseEnv \<Rightarrow> string list" where
  "badAttributes env =
     (case GetStringAnnotation env ''target-group-attributes'' of
        Inl err \<Rightarrow> []
      | Inr tgAttr \<Rightarrow> filter (\<lambda>t. length (Split t CHR ''='') \<noteq> 2) (NewAWSStringSlice tgAttr))"

lemma Parse_cases:
  "Parse env =
     (if effectiveTargetType env \<noteq> ''instance'' \<and> effectiveTargetType env \<noteq> ''pod''
      then Inl (InvalidAnnotationContent ''target-type'' (effectiveTargetType env))
      else if badAttributes env \<noteq> []
      then Inl (TgError (''Unable to parse `'' @ Join (badAttributes env) '', '' @
                         ''` into Key=Value pair(s)''))
      else Parse env) \<and>
   ((effectiveTargetType env = ''instance'' \<or> effectiveTargetType env = ''pod'') \<and>
    badAttributes env = [] \<longrightarrow>
    (\<exists>cfg. Parse env = Inr cfg \<and> TargetType cfg = Some (effectiveTargetType env)))"
proof (cases "GetStringAnnotation env ''target-group-attributes''")
  case (Inl err)
  then show ?thesis
    by (auto simp: Parse_def effectiveTargetType_def badAttributes_def orDefault_def Let_def
          TargetTypeEnumInstance_def)
next
  case (Inr tgAttr)
  obtain attrs bad where l:
    "attributesLoop env (NewAWSStringSlice tgAttr) (noAttributes env) [] = (attrs, bad)"
    by (cases "attributesLoop env (NewAWSStringSlice tgAttr) (noAttributes env) []") auto
  from attributesLoop_bad_slice [of env tgAttr "noAttributes env"] l
  have bad: "bad = filter (\<lambda>t. length (Split t CHR ''='') \<noteq> 2) (NewAWSStringSlice tgAttr)"
    by simp
  have b: "badAttributes env = bad"
    by (simp add: badAttributes_def Inr bad)
  show ?thesis
    unfolding b
    by (auto simp: Parse_def effectiveTargetType_def orDefault_def Let_def Inr l
          TargetTypeEnumInstance_def)
qed

text \<open>
  C5, as the code has it. For the target-group-attributes annotation (the target type
  being accepted), the tokens that do not split at \<open>=\<close> into exactly two parts make the
  whole parse fail, with an error that names all of them, joined by commas; no
  configuration is returned. For the tags annotation no token makes \<open>stringToTags\<close> fail:
  it returns the tags of the first two parts of every token that has at least two parts,
  and leaves the other tokens out.
\<close>

theorem key_value_annotation_tokens:
  "((effectiveTargetType env = ''instance'' \<or> effectiveTargetType env = ''pod'') \<and>
    GetStringAnnotation env ''target-group-attributes'' = Inr tgAttr \<and>
    bad = filter (\<lambda>t. length (Split t CHR ''='') \<noteq> 2) (NewAWSStringSlice tgAttr) \<and>
    bad \<noteq> [] \<longrightarrow>
      Parse env = Inl (TgError (''Unable to parse `'' @ Join bad '', '' @
                                ''` into Key=Value pair(s)''))) \<and>
   stringToTags s =
     map (\<lambda>t. \<lparr>TagKey = Some (Split t CHR ''='' ! 0), TagValue = Some (Split t CHR ''='' ! 1)\<rparr>)
       (filter (\<lambda>t. 2 \<le> length (Split t CHR ''='')) (stringToAwsSlice s))"
proof -
  have "Parse env = Inl (TgError (''Unable to parse `'' @ Join bad '', '' @
                                ''` into Key=Value pair(s)''))"
    if tt: "effectiveTargetType env = ''instance'' \<or> effectiveTargetType env = ''pod''"
      and a: "GetStringAnnotation env ''target-group-attributes'' = Inr tgAttr"
      and b: "bad = filter (\<lambda>t. length (Split t CHR ''='') \<noteq> 2) (NewAWSStringSlice tgAttr)"
      and ne: "bad \<noteq> []"
  proof -
    from a b have "badAttributes env = bad" by (simp add: badAttributes_def)
    with tt ne show ?thesis
      using Parse_cases [of env] by auto
  qed
  then show ?thesis using stringToTags_map by blast
qed

theorem key_value_annotation_tokens_witness:
  "Parse (annotationsEnv [(''target-group-attributes'', ''a=1, bad,b=2=3 , c=4'')]) =
     Inl (TgError ''Unable to parse `bad, b=2=3` into Key=Value pair(s)'') \<and>
   stringToTags ''a=1, bad,b=2=3 , c=4'' =
     [\<lparr>TagKey = Some ''a'', TagValue = Some ''1''\<rparr>, \<lparr>TagKey = Some ''b'', TagValue = Some ''2''\<rparr>,
      \<lparr>TagKey = Some ''c'', TagValue = Some ''4''\<rparr>]"
proof -
  have toks: "NewAWSStringSlice ''a=1, bad,b=2=3 , c=4'' = [''a=1'', ''bad'', ''b=2=3'', ''c=4'']"
    by (simp add: NewAWSStringSlice_def trim_eval_defs)
  have toks': "stringToAwsSlice ''a=1, bad,b=2=3 , c=4'' = [''a=1'', ''bad'', ''b=2=3'', ''c=4'']"
    by (simp add: stringToAwsSlice_def trim_eval_defs)
  from key_value_annotation_tokens [where
      env = "annotationsEnv [(''target-group-attributes'', ''a=1, bad,b=2=3 , c=4'')]"
      and tgAttr = "''a=1, bad,b=2=3 , c=4''" and bad = "[''bad'', ''b=2=3'']"
      and s = "''a=1, bad,b=2=3 , c=4''"]
  show ?thesis
    by (simp add: toks toks' effectiveTargetType_def annotationsEnv_def)
qed

text \<open>
  C5 as stated fails for the tags annotation: the tokens \<open>not-a-kv\<close> and \<open>b=2=3\<close> do not
  split into one key and one value, yet \<open>stringToTags\<close> returns the other tag and a tag
  made of the first two parts of \<open>b=2=3\<close>.
\<close>

theorem stringToTags_partial_result:
  "stringToTags ''a=1,not-a-kv,b=2=3'' =
     [\<lparr>TagKey = Some ''a'', TagValue = Some ''1''\<rparr>, \<lparr>TagKey = Some ''b'', TagValue = Some ''2''\<rparr>]"
  by (simp add: stringToTags_def stringToAwsSlice_def trim_eval_defs)

text \<open>
  C6, as the code has it. The target type is the value of the target-type annotation, or
  the configured default when the annotation cannot be read. The parser accepts exactly
  \<open>instance\<close> and \<open>pod\<close>: for any other target type it fails with an
  invalid-annotation-content error for \<open>target-type\<close>; for \<open>instance\<close> and \<open>pod\<close> it
  never gives that error, and succeeds with that target type when the
  target-group-attributes annotation is absent or well formed.
\<close>

theorem Parse_target_type:
  "(effectiveTargetType env \<noteq> ''instance'' \<and> effectiveTargetType env \<noteq> ''pod'' \<longrightarrow>
      Parse env = Inl (InvalidAnnotationContent ''target-type'' (effectiveTargetType env))) \<and>
   ((effectiveTargetType env = ''instance'' \<or> effectiveTargetType env = ''pod'') \<and>
    badAttributes env = [] \<longrightarrow>
      (\<exists>cfg. Parse env = Inr cfg \<and> TargetType cfg = Some (effectiveTargetType env))) \<and>
   (effectiveTargetType env = ''instance'' \<or> effectiveTargetType env = ''pod'' \<longrightarrow>
      Parse env \<noteq> Inl (InvalidAnnotationContent ''target-type'' v))"
  using Parse_cases [of env] by (auto split: if_splits)

theorem Parse_target_type_witness:
  "Parse (annotationsEnv [(''target-type'', ''ip'')]) =
     Inl (InvalidAnnotationContent ''target-type'' ''ip'') \<and>
   badAttributes (annotationsEnv [(''target-type'', ''pod'')]) = [] \<and>
   Parse (annotationsEnv [(''target-type'', ''pod'')]) =
     Inr \<lparr>Attributes = [], BackendProtocol = Some ''HTTP'', HealthyThresholdCount = Some 2,
          SuccessCodes = Some ''200'', TargetType = Some ''pod'',
          UnhealthyThresholdCount = Some 2\<rparr>"
proof -
  have b: "badAttributes (annotationsEnv [(''target-type'', ''pod'')]) = []"
    by (simp add: badAttributes_def annotationsEnv_def)
  from Parse_target_type [where env = "annotationsEnv [(''target-type'', ''ip'')]"]
  have 1: "Parse (annotationsEnv [(''target-type'', ''ip'')]) =
     Inl (InvalidAnnotationContent ''target-type'' ''ip'')"
    by (simp add: effectiveTargetType_def annotationsEnv_def)
  from Parse_target_type [where env = "annotationsEnv [(''target-type'', ''pod'')]"] b
  obtain cfg where "Parse (annotationsEnv [(''target-type'', ''pod'')]) = Inr cfg"
    by (auto simp: effectiveTargetType_def annotationsEnv_def)
  then have 2: "Parse (annotationsEnv [(''target-type'', ''pod'')]) =
     Inr \<lparr>Attributes = [], BackendProtocol = Some ''HTTP'', HealthyThresholdCount = Some 2,
          SuccessCodes = Some ''200'', TargetType = Some ''pod'',
          UnhealthyThresholdCount = Some 2\<rparr>"
    by (simp add: parse_eval_defs)
  from 1 b 2 show ?thesis by simp
qed

text \<open>
  C6 as stated fails: the target type \<open>ip\<close> is refused with an invalid-annotation-content
  error, and the target type \<open>pod\<close>, which is neither \<open>instance\<close> nor \<open>ip\<close>, is accepted.
\<close>

theorem target_type_ip_refused_pod_accepted:
  "Parse (annotationsEnv [(''target-type'', TargetTypeEnumIp)]) =
     Inl (InvalidAnnotationContent ''target-type'' ''ip'') \<and>
   Parse (annotationsEnv [(''target-type'', ''pod'')]) =
     Inr \<lparr>Attributes = [], BackendProtocol = Some ''HTTP'', HealthyThresholdCount = Some 2,
          SuccessCodes = Some ''200'', TargetType = Some ''pod'',
          UnhealthyThresholdCount = Some 2\<rparr>"
  by (simp add: parse_eval_defs TargetTypeEnumIp_def)



section \<open>The controller's annotation parsing (package controller)\<close>

subsection \<open>Cache, EC2 and outcomes\<close>

text \<open>
  Modelled from the spec: the process-wide cache, which is declared outside the sources at
  hand. The cache is process-wide with a TTL: an entry is stored with the time at which it
  expires, and \<open>Get\<close> answers with the entry until then. Time is counted in seconds; a
  call of the parser reads the clock once. The cache holds the string \<open>error\<close> under an
  annotation key, and a resource ID (a \<open>*string\<close>) under a tag name.
\<close>

datatype cache_value = CachedText string | CachedID string

type_synonym Cache = "string \<Rightarrow> (cache_value \<times> nat) option"

definition cacheGet :: "Cache \<Rightarrow> nat \<Rightarrow> string \<Rightarrow> cache_value option" where
  "cacheGet cache now k =
     (case cache k of None \<Rightarrow> None
      | Some (v, expires) \<Rightarrow> if now < expires then Some v else None)"

definition cacheSet :: "Cache \<Rightarrow> nat \<Rightarrow> string \<Rightarrow> cache_value \<Rightarrow> nat \<Rightarrow> Cache" where
  "cacheSet cache now k v ttl = cache(k \<mapsto> (v, now + ttl))"

text \<open>
  The EC2 service answers \<open>DescribeSubnets\<close> (given subnet IDs and filters) and
  \<open>DescribeSecurityGroups\<close> (given filters); it is a parameter. The resources it returns
  carry an ID and tags with a key and a value. The calls made are recorded in order.
\<close>

type_synonym ec2_filter = "string \<times> string list"

record Ec2Subnet =
  SubnetId :: string
  SubnetTags :: "(string \<times> string) list"
  AvailabilityZone :: string

record Ec2Group =
  SgGroupId :: string
  SgTags :: "(string \<times> string) list"

record EC2 =
  DescribeSubnets :: "string list \<Rightarrow> ec2_filter list \<Rightarrow> error + Ec2Subnet list"
  DescribeSecurityGroups :: "ec2_filter list \<Rightarrow> error + Ec2Group list"

datatype ec2_call =
    CallDescribeSubnets "string list" "ec2_filter list"
  | CallDescribeSecurityGroups "ec2_filter list"

text \<open>
  Modelled from the spec: \<open>EC2Tags.Get\<close>, which is not among the sources at hand: the
  value of the tag with the given key (the tag \<open>Name\<close> of a resource), and whether there
  is one.
\<close>

fun EC2Tags_Get :: "(string \<times> string) list \<Rightarrow> string \<Rightarrow> string \<times> bool" where
  "EC2Tags_Get [] s = ([], False)"
| "EC2Tags_Get ((k, v) # tags) s = (if k = s then (v, True) else EC2Tags_Get tags s)"

text \<open>
  A call returns a value, returns an error, or panics (the type assertion on a cached
  value that is not a \<open>*string\<close>, the write to a nil map).
\<close>

datatype 'a outcome = Ok 'a | Failed error | Panicked

subsection \<open>Subnets and security groups\<close>

text \<open>
  The first loop of \<open>parseSubnets\<close> and \<open>parseSecurityGroups\<close>: a token with the ID
  prefix goes to \<open>out\<close> as it is, a token found in the cache gives the cached ID, any
  other token is a name to look up. The counters of cache hits and misses are left out.
\<close>

fun resolveLoop ::
  "string \<Rightarrow> nat \<Rightarrow> Cache \<Rightarrow> string list \<Rightarrow> string list \<Rightarrow> string list \<Rightarrow>
   (string list \<times> string list) option" where
  "resolveLoop pfx now cache [] out names = Some (out, names)"
| "resolveLoop pfx now cache (tok # toks) out names =
     (if HasPrefix tok pfx then resolveLoop pfx now cache toks (out @ [tok]) names
      else (case cacheGet cache now tok of
              Some (CachedID v) \<Rightarrow> resolveLoop pfx now cache toks (out @ [v]) names
            | Some (CachedText v) \<Rightarrow> None
            | None \<Rightarrow> resolveLoop pfx now cache toks out (names @ [tok])))"

fun subnetsLoop ::
  "nat \<Rightarrow> Ec2Subnet list \<Rightarrow> string list \<Rightarrow> Cache \<Rightarrow> string list \<times> Cache" where
  "subnetsLoop now [] out cache = (out, cache)"
| "subnetsLoop now (subnet # subnets) out cache =
     (case EC2Tags_Get (SubnetTags subnet) ''Name'' of
        (v, True) \<Rightarrow>
          subnetsLoop now subnets (out @ [SubnetId subnet])
            (cacheSet cache now v (CachedID (SubnetId subnet)) (60 * 60))
      | (v, False) \<Rightarrow> subnetsLoop now subnets out cache)"

definition parseSubnets ::
  "EC2 \<Rightarrow> nat \<Rightarrow> Cache \<Rightarrow> string \<Rightarrow> string list outcome \<times> Cache \<times> ec2_call list" where
  "parseSubnets ec2 now cache s =
     (case resolveLoop ''subnet-'' now cache (stringToAwsSlice s) [] [] of
        None \<Rightarrow> (Panicked, cache, [])
      | Some (out1, names) \<Rightarrow>
          (let (verifyErr, calls1) =
                 (if length out1 > 0
                  then (case DescribeSubnets ec2 out1 [] of Inl err \<Rightarrow> Some err | Inr r \<Rightarrow> None,
                        [CallDescribeSubnets out1 []])
                  else (None, []))
           in case verifyErr of
                Some err \<Rightarrow> (Failed err, cache, calls1)
              | None \<Rightarrow>
                  (let (subnetInfo, calls2) =
                         (if length names > 0
                          then (DescribeSubnets ec2 [] [(''tag:Name'', names)],
                                [CallDescribeSubnets [] [(''tag:Name'', names)]])
                          else (Inr [], []))
                   in case subnetInfo of
                        Inl err \<Rightarrow> (Failed err, cache, calls1 @ calls2)
                      | Inr subnets \<Rightarrow>
                          (let (out2, cache2) = subnetsLoop now subnets out1 cache;
                               out = sort out2
                           in if length out = 0
                              then (Failed (Error (''unable to resolve any subnets from: '' @ s)),
                                    cache2, calls1 @ calls2)
                              else (Ok out, cache2, calls1 @ calls2)))))"

fun groupsLoop ::
  "nat \<Rightarrow> Ec2Group list \<Rightarrow> string list \<Rightarrow> Cache \<Rightarrow> string list \<times> Cache" where
  "groupsLoop now [] out cache = (out, cache)"
| "groupsLoop now (sg # sgs) out cache =
     (case EC2Tags_Get (SgTags sg) ''Name'' of
        (v, True) \<Rightarrow>
          groupsLoop now sgs (out @ [SgGroupId sg])
            (cacheSet cache now v (CachedID (SgGroupId sg)) (60 * 60))
      | (v, False) \<Rightarrow> groupsLoop now sgs out cache)"

definition parseSecurityGroups ::
  "EC2 \<Rightarrow> nat \<Rightarrow> Cache \<Rightarrow> string \<Rightarrow> string list outcome \<times> Cache \<times> ec2_call list" where
  "parseSecurityGroups ec2 now cache s =
     (case resolveLoop ''sg-'' now cache (stringToAwsSlice s) [] [] of
        None \<Rightarrow> (Panicked, cache, [])
      | Some (out1, names) \<Rightarrow>
          (let (securitygroupInfo, calls) =
                 (if length names > 0
                  then (DescribeSecurityGroups ec2 [(''tag:Name'', names)],
                        [CallDescribeSecurityGroups [(''tag:Name'', names)]])
                  else (Inr [], []))
           in case securitygroupInfo of
                Inl err \<Rightarrow> (Failed err, cache, calls)
              | Inr sgs \<Rightarrow>
                  (let (out2, cache2) = groupsLoop now sgs out1 cache;
                       out = sort out2
                   in if length out = 0
                      then (Failed (Error (''unable to resolve any security groups from: '' @ s)),
                            cache2, calls)
                      else (Ok out, cache2, calls))))"


subsection \<open>The other annotations\<close>

definition backendProtocolKey :: string where
  "backendProtocolKey = ''alb.ingress.kubernetes.io/backend-protocol''"
definition certificateArnKey :: string where
  "certificateArnKey = ''alb.ingress.kubernetes.io/certificate-arn''"
definition healthcheckPathKey :: string where
  "healthcheckPathKey = ''alb.ingress.kubernetes.io/healthcheck-path''"
definition portKey :: string where
  "portKey = ''alb.ingress.kubernetes.io/port''"
definition schemeKey :: string where
  "schemeKey = ''alb.ingress.kubernetes.io/scheme''"
definition securityGroupsKey :: string where
  "securityGroupsKey = ''alb.ingress.kubernetes.io/security-groups''"
definition subnetsKey :: string where
  "subnetsKey = ''alb.ingress.kubernetes.io/subnets''"
definition successCodesKey :: string where
  "successCodesKey = ''alb.ingress.kubernetes.io/successCodes''"
definition tagsKey :: string where
  "tagsKey = ''alb.ingress.kubernetes.io/tags''"

text \<open>
  \<open>strconv.ParseInt(s, 10, 64)\<close> with its error dropped, as \<open>parsePort\<close> calls it: an
  optional sign and decimal digits; 0 when the syntax is wrong, the nearest bound of
  \<open>int64\<close> when the number is out of range.
\<close>

definition isDigit :: "char \<Rightarrow> bool" where
  "isDigit c \<longleftrightarrow> CHR ''0'' \<le> c \<and> c \<le> CHR ''9''"

definition digitsValue :: "string \<Rightarrow> nat" where
  "digitsValue ds = foldl (\<lambda>acc c. acc * 10 + (of_char c - 48)) 0 ds"

definition ParseInt :: "string \<Rightarrow> 64 word" where
  "ParseInt s =
     (let neg = (s \<noteq> [] \<and> hd s = CHR ''-'');
          ds = (if s \<noteq> [] \<and> (hd s = CHR ''+'' \<or> hd s = CHR ''-'') then tl s else s)
      in if ds = [] \<or> \<not> list_all isDigit ds then 0
         else (let un = digitsValue ds
               in if \<not> neg \<and> un \<ge> 2 ^ 63 then 2 ^ 63 - 1
                  else if neg \<and> un > 2 ^ 63 then - (2 ^ 63)
                  else if neg then - (word_of_nat un) else word_of_nat un))"

definition parsePort :: "string \<Rightarrow> string \<Rightarrow> 64 word list" where
  "parsePort portStr certArn =
     (if portStr = [] \<and> certArn = [] then [80]
      else if portStr = [] \<and> certArn \<noteq> [] then [443]
      else map ParseInt (Split portStr CHR '',''))"

definition parseHealthcheckPath :: "string \<Rightarrow> string" where
  "parseHealthcheckPath s = (if s = [] then ''/'' else s)"

definition parseScheme :: "string \<Rightarrow> error + string" where
  "parseScheme s =
     (if s = [] then Inl (Error (''Necessary annotations missing. Must include '' @ schemeKey))
      else if s \<noteq> ''internal'' \<and> s \<noteq> ''internet-facing''
      then Inl (Error (''ALB scheme ['' @ s @ ''] must be either `internal` or `internet-facing`''))
      else Inr s)"

subsection \<open>parseAnnotations\<close>

record annotationsT =
  backendProtocol :: "string option"
  certificateArn :: "string option"
  healthcheckPath :: "string option"
  port :: "64 word list"
  scheme :: "string option"
  securityGroups :: "string list"
  subnets :: "string list"
  successCodes :: "string option"
  tags :: "Elbv2Tag list"

text \<open>
  The annotations are a Go map: a missing key reads as the empty string, and the map may
  be nil (it then reads as empty, and a write to it panics). The parser writes the
  defaults of two keys into the map it is given; the map is returned as the call leaves
  it. \<open>awsutil.Prettify\<close> of \<open>SortedMap\<close> of the annotations, which makes the cache key,
  is a parameter.
\<close>

type_synonym annotations = "string \<Rightarrow> string option"

definition annotationsGet :: "annotations \<Rightarrow> string \<Rightarrow> string" where
  "annotationsGet m k = (case m k of None \<Rightarrow> [] | Some v \<Rightarrow> v)"

definition annotationsCacheKey :: "(annotations \<Rightarrow> string) \<Rightarrow> annotations option \<Rightarrow> string" where
  "annotationsCacheKey prettifySorted annotations0 =
     ''annotations '' @ prettifySorted (case annotations0 of None \<Rightarrow> Map.empty | Some m \<Rightarrow> m)"

type_synonym parse_result =
  "annotationsT option outcome \<times> Cache \<times> annotations option \<times> ec2_call list"

definition parseAnnotations ::
  "EC2 \<Rightarrow> (annotations \<Rightarrow> string) \<Rightarrow> nat \<Rightarrow> Cache \<Rightarrow> annotations option \<Rightarrow> parse_result" where
  "parseAnnotations ec2 prettifySorted now cache annotations0 =
     (let cacheKey = annotationsCacheKey prettifySorted annotations0
      in if cacheGet cache now cacheKey \<noteq> None then (Ok None, cache, annotations0, [])
         else case annotations0 of
           None \<Rightarrow> (Panicked, cache, annotations0, [])
         | Some m0 \<Rightarrow>
      (let m1 = (if annotationsGet m0 successCodesKey = [] then m0(successCodesKey \<mapsto> ''200'')
                 else m0);
           m = (if annotationsGet m1 backendProtocolKey = [] then m1(backendProtocolKey \<mapsto> ''HTTP'')
                else m1);
           bad = (\<lambda>c. cacheSet c now cacheKey (CachedText ''error'') (1 * 3600))
       in if annotationsGet m subnetsKey = []
          then (Failed (Error (''Necessary annotations missing. Must include '' @ subnetsKey)),
                bad cache, Some m, [])
          else case parseSubnets ec2 now cache (annotationsGet m subnetsKey) of
            (r1, cache1, calls1) \<Rightarrow>
      (case r1 of
            Panicked \<Rightarrow> (Panicked, cache1, Some m, calls1)
          | Failed err \<Rightarrow> (Failed err, bad cache1, Some m, calls1)
          | Ok subnets1 \<Rightarrow>
      (case parseSecurityGroups ec2 now cache1 (annotationsGet m securityGroupsKey) of
            (r2, cache2, calls2) \<Rightarrow>
      (case r2 of
            Panicked \<Rightarrow> (Panicked, cache2, Some m, calls1 @ calls2)
          | Failed err \<Rightarrow> (Failed err, bad cache2, Some m, calls1 @ calls2)
          | Ok securitygroups \<Rightarrow>
      (case parseScheme (annotationsGet m schemeKey) of
            Inl err \<Rightarrow> (Failed err, bad cache2, Some m, calls1 @ calls2)
          | Inr scheme1 \<Rightarrow>
              (Ok (Some
                 \<lparr>backendProtocol = Some (annotationsGet m backendProtocolKey),
                  certificateArn = m certificateArnKey,
                  healthcheckPath = Some (parseHealthcheckPath (annotationsGet m healthcheckPathKey)),
                  port = parsePort (annotationsGet m portKey) (annotationsGet m certificateArnKey),
                  scheme = Some scheme1,
                  securityGroups = securitygroups,
                  subnets = subnets1,
                  successCodes = Some (annotationsGet m successCodesKey),
                  tags = stringToTags (annotationsGet m tagsKey)\<rparr>),
               cache2, Some m, calls1 @ calls2)))))))"


subsection \<open>What subnet resolution is stated in terms of\<close>

text \<open>
  The tokens of the annotation that are IDs already, the ID a token resolves to without a
  lookup (itself, or the ID the cache holds for it), the tokens that need a lookup, and
  whether some token would make the type assertion on its cache entry panic.
\<close>

definition passThrough :: "string \<Rightarrow> string list" where
  "passThrough s = filter (\<lambda>t. HasPrefix t ''subnet-'') (stringToAwsSlice s)"

definition directId :: "string \<Rightarrow> nat \<Rightarrow> Cache \<Rightarrow> string \<Rightarrow> string" where
  "directId pfx now cache t =
     (if HasPrefix t pfx then t
      else (case cacheGet cache now t of Some (CachedID v) \<Rightarrow> v | _ \<Rightarrow> []))"

definition directIds :: "string \<Rightarrow> nat \<Rightarrow> Cache \<Rightarrow> string list \<Rightarrow> string list" where
  "directIds pfx now cache toks =
     map (directId pfx now cache)
       (filter (\<lambda>t. HasPrefix t pfx \<or> cacheGet cache now t \<noteq> None) toks)"

definition lookupNames :: "string \<Rightarrow> nat \<Rightarrow> Cache \<Rightarrow> string list \<Rightarrow> string list" where
  "lookupNames pfx now cache toks =
     filter (\<lambda>t. \<not> HasPrefix t pfx \<and> cacheGet cache now t = None) toks"

definition assertionPanics :: "string \<Rightarrow> nat \<Rightarrow> Cache \<Rightarrow> string \<Rightarrow> bool" where
  "assertionPanics pfx now cache t \<longleftrightarrow>
     \<not> HasPrefix t pfx \<and>
     (case cacheGet cache now t of Some (CachedText v) \<Rightarrow> True | _ \<Rightarrow> False)"

definition hasNameTag :: "Ec2Subnet \<Rightarrow> bool" where
  "hasNameTag subnet = snd (EC2Tags_Get (SubnetTags subnet) ''Name'')"

definition nameTag :: "Ec2Subnet \<Rightarrow> string" where
  "nameTag subnet = fst (EC2Tags_Get (SubnetTags subnet) ''Name'')"

fun isNameLookup :: "ec2_call \<Rightarrow> bool" where
  "isNameLookup (CallDescribeSubnets ids filters) = (filters \<noteq> [])"
| "isNameLookup (CallDescribeSecurityGroups filters) = False"

subsection \<open>Properties of the controller's annotation parsing\<close>

lemma resolveLoop_char:
  "resolveLoop pfx now cache toks out names =
     (if list_ex (assertionPanics pfx now cache) toks then None
      else Some (out @ directIds pfx now cache toks, names @ lookupNames pfx now cache toks))"
proof (induction toks arbitrary: out names)
  case Nil
  then show ?case by (simp add: directIds_def lookupNames_def)
next
  case (Cons t toks)
  show ?case
  proof (cases "HasPrefix t pfx")
    case True
    then show ?thesis
      by (simp add: Cons.IH directIds_def lookupNames_def assertionPanics_def directId_def)
  next
    case False
    then show ?thesis
    proof (cases "cacheGet cache now t")
      case None
      with False show ?thesis
        by (simp add: Cons.IH directIds_def lookupNames_def assertionPanics_def)
    next
      case (Some cv)
      with False show ?thesis
        by (cases cv)
           (simp_all add: Cons.IH directIds_def lookupNames_def assertionPanics_def directId_def)
    qed
  qed
qed

lemma subnetsLoop_out:
  "fst (subnetsLoop now sns out cache) = out @ map SubnetId (filter hasNameTag sns)"
proof (induction sns arbitrary: out cache)
  case Nil
  then show ?case by simp
next
  case (Cons sn sns)
  then show ?case
    by (cases "EC2Tags_Get (SubnetTags sn) ''Name''") (auto simp: hasNameTag_def)
qed

lemma subnetsLoop_cache_other:
  "\<forall>sn \<in> set sns. \<not> (hasNameTag sn \<and> nameTag sn = v) \<Longrightarrow>
   snd (subnetsLoop now sns out cache) v = cache v"
proof (induction sns arbitrary: out cache)
  case Nil
  then show ?case by simp
next
  case (Cons sn sns)
  then show ?case
    by (cases "EC2Tags_Get (SubnetTags sn) ''Name''")
       (auto simp: hasNameTag_def nameTag_def cacheSet_def split: bool.splits)
qed

lemma subnetsLoop_cache_named:
  "\<exists>sn \<in> set sns. hasNameTag sn \<and> nameTag sn = v \<Longrightarrow>
   \<exists>sn' \<in> set sns. hasNameTag sn' \<and> nameTag sn' = v \<and>
     snd (subnetsLoop now sns out cache) v = Some (CachedID (SubnetId sn'), now + 3600)"
proof (induction sns arbitrary: out cache)
  case Nil
  then show ?case by simp
next
  case (Cons a sns)
  show ?case
  proof (cases "\<exists>b \<in> set sns. hasNameTag b \<and> nameTag b = v")
    case True
    from Cons.IH [OF True]
    have "\<And>out cache. \<exists>sn' \<in> set sns. hasNameTag sn' \<and> nameTag sn' = v \<and>
        snd (subnetsLoop now sns out cache) v = Some (CachedID (SubnetId sn'), now + 3600)" .
    then show ?thesis
      by (cases "EC2Tags_Get (SubnetTags a) ''Name''") (auto split: bool.splits)
  next
    case False
    with Cons.prems have a: "hasNameTag a" "nameTag a = v" by auto
    from False have other: "\<forall>b \<in> set sns. \<not> (hasNameTag b \<and> nameTag b = v)" by blast
    from a have g: "EC2Tags_Get (SubnetTags a) ''Name'' = (v, True)"
      by (cases "EC2Tags_Get (SubnetTags a) ''Name''") (auto simp: hasNameTag_def nameTag_def)
    show ?thesis
      using a by (simp add: g subnetsLoop_cache_other [OF other] cacheSet_def)
  qed
qed

text \<open>The same for the subnets annotation \<open>s\<close>, and the subnets its name lookup finds.\<close>

definition subnetIds :: "nat \<Rightarrow> Cache \<Rightarrow> string \<Rightarrow> string list" where
  "subnetIds now cache s = directIds ''subnet-'' now cache (stringToAwsSlice s)"

definition subnetNames :: "nat \<Rightarrow> Cache \<Rightarrow> string \<Rightarrow> string list" where
  "subnetNames now cache s = lookupNames ''subnet-'' now cache (stringToAwsSlice s)"

definition subnetPanics :: "nat \<Rightarrow> Cache \<Rightarrow> string \<Rightarrow> bool" where
  "subnetPanics now cache s \<longleftrightarrow>
     list_ex (assertionPanics ''subnet-'' now cache) (stringToAwsSlice s)"

definition foundByName :: "EC2 \<Rightarrow> nat \<Rightarrow> Cache \<Rightarrow> string \<Rightarrow> Ec2Subnet list" where
  "foundByName ec2 now cache s =
     (if subnetNames now cache s = [] then []
      else (case DescribeSubnets ec2 [] [(''tag:Name'', subnetNames now cache s)] of
              Inl err \<Rightarrow> [] | Inr sns \<Rightarrow> sns))"

definition verifyFails :: "EC2 \<Rightarrow> nat \<Rightarrow> Cache \<Rightarrow> string \<Rightarrow> bool" where
  "verifyFails ec2 now cache s \<longleftrightarrow>
     subnetIds now cache s \<noteq> [] \<and> isl (DescribeSubnets ec2 (subnetIds now cache s) [])"

definition lookupFails :: "EC2 \<Rightarrow> nat \<Rightarrow> Cache \<Rightarrow> string \<Rightarrow> bool" where
  "lookupFails ec2 now cache s \<longleftrightarrow>
     subnetNames now cache s \<noteq> [] \<and>
     isl (DescribeSubnets ec2 [] [(''tag:Name'', subnetNames now cache s)])"

definition subnetCalls :: "EC2 \<Rightarrow> nat \<Rightarrow> Cache \<Rightarrow> string \<Rightarrow> ec2_call list" where
  "subnetCalls ec2 now cache s =
     (if subnetIds now cache s = [] then [] else [CallDescribeSubnets (subnetIds now cache s) []]) @
     (if subnetNames now cache s = [] \<or> verifyFails ec2 now cache s then []
      else [CallDescribeSubnets [] [(''tag:Name'', subnetNames now cache s)]])"

lemma sort_eq_Nil_iff: "sort xs = [] \<longleftrightarrow> xs = []"
  using length_sort [of "\<lambda>x. x" xs] by (metis length_0_conv)

lemma parseSubnets_char:
  assumes "\<not> subnetPanics now cache s"
  shows "parseSubnets ec2 now cache s =
     (if verifyFails ec2 now cache s
      then (Failed (projl (DescribeSubnets ec2 (subnetIds now cache s) [])), cache,
            subnetCalls ec2 now cache s)
      else if lookupFails ec2 now cache s
      then (Failed (projl (DescribeSubnets ec2 [] [(''tag:Name'', subnetNames now cache s)])),
            cache, subnetCalls ec2 now cache s)
      else if subnetIds now cache s @ map SubnetId (filter hasNameTag (foundByName ec2 now cache s)) = []
      then (Failed (Error (''unable to resolve any subnets from: '' @ s)),
            snd (subnetsLoop now (foundByName ec2 now cache s) (subnetIds now cache s) cache),
            subnetCalls ec2 now cache s)
      else (Ok (sort (subnetIds now cache s @
                      map SubnetId (filter hasNameTag (foundByName ec2 now cache s)))),
            snd (subnetsLoop now (foundByName ec2 now cache s) (subnetIds now cache s) cache),
            subnetCalls ec2 now cache s))"
proof -
  define ids where "ids = subnetIds now cache s"
  define names where "names = subnetNames now cache s"
  have r: "resolveLoop ''subnet-'' now cache (stringToAwsSlice s) [] [] = Some (ids, names)"
    using assms
    by (simp add: resolveLoop_char subnetPanics_def ids_def names_def subnetIds_def
          subnetNames_def)
  show ?thesis
  proof (cases "verifyFails ec2 now cache s")
    case True
    then obtain e where e: "DescribeSubnets ec2 ids [] = Inl e" and ne: "ids \<noteq> []"
      by (auto simp: verifyFails_def ids_def isl_def)
    from True e ne show ?thesis
      by (simp add: parseSubnets_def r subnetCalls_def ids_def [symmetric])
  next
    case nv: False
    then have v: "ids = [] \<or> (\<exists>r. DescribeSubnets ec2 ids [] = Inr r)"
      by (cases "DescribeSubnets ec2 ids []") (auto simp: verifyFails_def ids_def)
    from nv have nv': "\<not> verifyFails ec2 now cache s" .
    show ?thesis
    proof (cases "lookupFails ec2 now cache s")
      case True
      then obtain e where e: "DescribeSubnets ec2 [] [(''tag:Name'', names)] = Inl e"
        and ne: "names \<noteq> []"
        by (auto simp: lookupFails_def names_def isl_def)
      have "parseSubnets ec2 now cache s =
          (Failed e, cache,
           (if ids = [] then [] else [CallDescribeSubnets ids []]) @
           [CallDescribeSubnets [] [(''tag:Name'', names)]])"
        using v e ne by (auto simp: parseSubnets_def r Let_def)
      with nv' True e ne show ?thesis
        by (simp add: subnetCalls_def ids_def [symmetric] names_def [symmetric])
    next
      case nl: False
      define found where "found = foundByName ec2 now cache s"
      from nl have l: "names = [] \<and> found = [] \<or>
          names \<noteq> [] \<and> DescribeSubnets ec2 [] [(''tag:Name'', names)] = Inr found"
        by (cases "DescribeSubnets ec2 [] [(''tag:Name'', names)]")
           (auto simp: lookupFails_def found_def foundByName_def names_def)
      obtain out2 cache2 where sl: "subnetsLoop now found ids cache = (out2, cache2)"
        by (cases "subnetsLoop now found ids cache") auto
      from subnetsLoop_out [of now found ids cache] sl
      have out2: "out2 = ids @ map SubnetId (filter hasNameTag found)" by simp
      have "parseSubnets ec2 now cache s =
          (if out2 = [] then Failed (Error (''unable to resolve any subnets from: '' @ s))
           else Ok (sort out2),
           cache2,
           (if ids = [] then [] else [CallDescribeSubnets ids []]) @
           (if names = [] then [] else [CallDescribeSubnets [] [(''tag:Name'', names)]]))"
        using v l sl by (auto simp: parseSubnets_def r Let_def sort_eq_Nil_iff)
      moreover from sl have "cache2 = snd (subnetsLoop now found ids cache)" by simp
      ultimately have "parseSubnets ec2 now cache s =
          (if ids @ map SubnetId (filter hasNameTag found) = []
           then Failed (Error (''unable to resolve any subnets from: '' @ s))
           else Ok (sort (ids @ map SubnetId (filter hasNameTag found))),
           snd (subnetsLoop now found ids cache),
           (if ids = [] then [] else [CallDescribeSubnets ids []]) @
           (if names = [] then [] else [CallDescribeSubnets [] [(''tag:Name'', names)]]))"
        by (simp only: out2)
      with nv' nl show ?thesis
        unfolding found_def ids_def names_def
        by (simp add: subnetCalls_def)
    qed
  qed
qed

lemma passThrough_subnetIds: "set (passThrough s) \<subseteq> set (subnetIds now cache s)"
proof
  fix t
  assume "t \<in> set (passThrough s)"
  then have t: "t \<in> set (stringToAwsSlice s)" "HasPrefix t ''subnet-''"
    by (simp_all add: passThrough_def)
  then have "directId ''subnet-'' now cache t = t" by (simp add: directId_def)
  with t show "t \<in> set (subnetIds now cache s)"
    unfolding subnetIds_def directIds_def by force
qed

lemma subnetCalls_one_lookup: "length (filter isNameLookup (subnetCalls ec2 now cache s)) \<le> 1"
  by (simp add: subnetCalls_def)

text \<open>
  An EC2 in which the subnet named \<open>web\<close> is \<open>subnet-9\<close>, and one in which \<open>subnet-a\<close>
  and \<open>subnet-b\<close> are in the same availability zone.
\<close>

definition webEC2 :: EC2 where
  "webEC2 =
     \<lparr>DescribeSubnets =
        (\<lambda>ids filters.
           if filters = [(''tag:Name'', [''web''])]
           then Inr [\<lparr>SubnetId = ''subnet-9'', SubnetTags = [(''Name'', ''web'')],
                      AvailabilityZone = ''us-east-1c''\<rparr>]
           else Inr []),
      DescribeSecurityGroups = (\<lambda>filters. Inr [])\<rparr>"

definition sameZoneEC2 :: EC2 where
  "sameZoneEC2 =
     \<lparr>DescribeSubnets =
        (\<lambda>ids filters.
           Inr [\<lparr>SubnetId = ''subnet-a'', SubnetTags = [], AvailabilityZone = ''us-east-1a''\<rparr>,
                \<lparr>SubnetId = ''subnet-b'', SubnetTags = [], AvailabilityZone = ''us-east-1a''\<rparr>]),
      DescribeSecurityGroups = (\<lambda>filters. Inr [])\<rparr>"

lemmas subnets_eval_defs =
  parseSubnets_def stringToAwsSlice_def trim_eval_defs HasPrefix_def cacheGet_def cacheSet_def
  Let_def

text \<open>
  C7, as the code has it. Provided no token meets a cache entry that is not an ID (the
  call then panics): the IDs resolved without a lookup are the tokens with prefix
  \<open>subnet-\<close>, unchanged, and the cached IDs of the tokens with a live entry in the
  process-wide cache; when there are any, one describe call checks them, and its error
  fails the resolution. The remaining tokens are looked up as tag-Name values by a single
  filtered list call, made only when there are such tokens; its error fails the
  resolution. On success the result is the sorted list of the direct IDs and the IDs of the
  subnets found that carry a \<open>Name\<close> tag; it is not empty and holds every passed-through
  token; each name found is cached for 60 minutes with the ID of a subnet of that name.
  When nothing resolves the resolution fails with an error that quotes the annotation.
  Availability zones play no part.
\<close>

theorem parseSubnets_resolution:
  assumes "\<not> subnetPanics now cache s"
    and "parseSubnets ec2 now cache s = (res, cache', calls)"
  shows "calls = subnetCalls ec2 now cache s \<and>
         length (filter isNameLookup calls) \<le> 1 \<and>
         (res = Ok out \<longrightarrow>
            out = sort (subnetIds now cache s @
                        map SubnetId (filter hasNameTag (foundByName ec2 now cache s))) \<and>
            out \<noteq> [] \<and> set (passThrough s) \<subseteq> set out) \<and>
         (res = Ok out \<and> sn \<in> set (foundByName ec2 now cache s) \<and> hasNameTag sn \<and>
          later < now + 3600 \<longrightarrow>
            SubnetId sn \<in> set out \<and>
            (\<exists>sn' \<in> set (foundByName ec2 now cache s).
               hasNameTag sn' \<and> nameTag sn' = nameTag sn \<and>
               cacheGet cache' later (nameTag sn) = Some (CachedID (SubnetId sn')))) \<and>
         (verifyFails ec2 now cache s \<longrightarrow>
            res = Failed (projl (DescribeSubnets ec2 (subnetIds now cache s) []))) \<and>
         (\<not> verifyFails ec2 now cache s \<and> lookupFails ec2 now cache s \<longrightarrow>
            res = Failed (projl (DescribeSubnets ec2 []
                                   [(''tag:Name'', subnetNames now cache s)]))) \<and>
         (\<not> verifyFails ec2 now cache s \<and> \<not> lookupFails ec2 now cache s \<and>
          subnetIds now cache s = [] \<and>
          filter hasNameTag (foundByName ec2 now cache s) = [] \<longrightarrow>
            res = Failed (Error (''unable to resolve any subnets from: '' @ s)))"
proof -
  note c = parseSubnets_char [OF assms(1), of ec2, unfolded assms(2)]
  have calls: "calls = subnetCalls ec2 now cache s"
    using c by (simp split: if_splits)
  have one: "length (filter isNameLookup calls) \<le> 1"
    unfolding calls by (rule subnetCalls_one_lookup)
  have ok: "out = sort (subnetIds now cache s @
                        map SubnetId (filter hasNameTag (foundByName ec2 now cache s))) \<and>
            out \<noteq> [] \<and> set (passThrough s) \<subseteq> set out \<and>
            cache' = snd (subnetsLoop now (foundByName ec2 now cache s)
                            (subnetIds now cache s) cache)"
    if "res = Ok out"
  proof -
    from c that have o: "out = sort (subnetIds now cache s @
                        map SubnetId (filter hasNameTag (foundByName ec2 now cache s)))"
      and ne: "subnetIds now cache s @
                 map SubnetId (filter hasNameTag (foundByName ec2 now cache s)) \<noteq> []"
      and c': "cache' = snd (subnetsLoop now (foundByName ec2 now cache s)
                            (subnetIds now cache s) cache)"
      by (simp_all split: if_splits)
    from o ne have "out \<noteq> []" by (simp add: sort_eq_Nil_iff)
    moreover from o have "set (passThrough s) \<subseteq> set out"
      using passThrough_subnetIds [of s now cache] by auto
    ultimately show ?thesis using o c' by simp
  qed
  have named: "SubnetId sn \<in> set out \<and>
            (\<exists>sn' \<in> set (foundByName ec2 now cache s).
               hasNameTag sn' \<and> nameTag sn' = nameTag sn \<and>
               cacheGet cache' later (nameTag sn) = Some (CachedID (SubnetId sn')))"
    if "res = Ok out" and sn: "sn \<in> set (foundByName ec2 now cache s)" "hasNameTag sn"
      and later: "later < now + 3600"
  proof -
    from ok [OF that(1)] have o: "out = sort (subnetIds now cache s @
                        map SubnetId (filter hasNameTag (foundByName ec2 now cache s)))"
      and c': "cache' = snd (subnetsLoop now (foundByName ec2 now cache s)
                            (subnetIds now cache s) cache)"
      by simp_all
    from sn o have 1: "SubnetId sn \<in> set out" by auto
    from sn have "\<exists>a \<in> set (foundByName ec2 now cache s). hasNameTag a \<and> nameTag a = nameTag sn"
      by blast
    from subnetsLoop_cache_named [OF this, of now "subnetIds now cache s" cache]
    obtain sn' where sn': "sn' \<in> set (foundByName ec2 now cache s)" "hasNameTag sn'"
      "nameTag sn' = nameTag sn"
      "cache' (nameTag sn) = Some (CachedID (SubnetId sn'), now + 3600)"
      unfolding c' by blast
    from sn'(4) later have "cacheGet cache' later (nameTag sn) = Some (CachedID (SubnetId sn'))"
      by (simp add: cacheGet_def)
    with 1 sn' show ?thesis by blast
  qed
  have f1: "res = Failed (projl (DescribeSubnets ec2 (subnetIds now cache s) []))"
    if "verifyFails ec2 now cache s"
    using c that by simp
  have f2: "res = Failed (projl (DescribeSubnets ec2 []
                                   [(''tag:Name'', subnetNames now cache s)]))"
    if "\<not> verifyFails ec2 now cache s" "lookupFails ec2 now cache s"
    using c that by simp
  have f3: "res = Failed (Error (''unable to resolve any subnets from: '' @ s))"
    if "\<not> verifyFails ec2 now cache s" "\<not> lookupFails ec2 now cache s"
      "subnetIds now cache s = []" "filter hasNameTag (foundByName ec2 now cache s) = []"
    using c that by simp
  from calls one ok named f1 f2 f3 show ?thesis by blast
qed

theorem parseSubnets_resolution_witness:
  "\<not> subnetPanics 0 Map.empty ''subnet-b, web ,subnet-a'' \<and>
   fst (parseSubnets webEC2 0 Map.empty ''subnet-b, web ,subnet-a'') =
     Ok [''subnet-9'', ''subnet-a'', ''subnet-b''] \<and>
   snd (snd (parseSubnets webEC2 0 Map.empty ''subnet-b, web ,subnet-a'')) =
     [CallDescribeSubnets [''subnet-b'', ''subnet-a''] [],
      CallDescribeSubnets [] [(''tag:Name'', [''web''])]] \<and>
   length (filter isNameLookup
     (snd (snd (parseSubnets webEC2 0 Map.empty ''subnet-b, web ,subnet-a'')))) \<le> 1 \<and>
   cacheGet (fst (snd (parseSubnets webEC2 0 Map.empty ''subnet-b, web ,subnet-a''))) 3599 ''web'' =
     Some (CachedID ''subnet-9'')"
proof -
  have np: "\<not> subnetPanics 0 Map.empty ''subnet-b, web ,subnet-a''"
    by (simp add: subnetPanics_def assertionPanics_def stringToAwsSlice_def trim_eval_defs
          HasPrefix_def cacheGet_def)
  obtain res cache' calls where
    p: "parseSubnets webEC2 0 Map.empty ''subnet-b, web ,subnet-a'' = (res, cache', calls)"
    by (cases "parseSubnets webEC2 0 Map.empty ''subnet-b, web ,subnet-a''") auto
  have e: "fst (parseSubnets webEC2 0 Map.empty ''subnet-b, web ,subnet-a'') =
     Ok [''subnet-9'', ''subnet-a'', ''subnet-b'']"
    "snd (snd (parseSubnets webEC2 0 Map.empty ''subnet-b, web ,subnet-a'')) =
     [CallDescribeSubnets [''subnet-b'', ''subnet-a''] [],
      CallDescribeSubnets [] [(''tag:Name'', [''web''])]]"
    "cacheGet (fst (snd (parseSubnets webEC2 0 Map.empty ''subnet-b, web ,subnet-a''))) 3599 ''web'' =
     Some (CachedID ''subnet-9'')"
    by (simp_all add: subnets_eval_defs webEC2_def)
  from parseSubnets_resolution [OF np p]
  have "length (filter isNameLookup calls) \<le> 1" by blast
  with np e p show ?thesis by simp
qed

text \<open>
  C7 as stated fails: \<open>subnet-a\<close> and \<open>subnet-b\<close> are in the same availability zone, and
  the resolution succeeds with both.
\<close>

theorem same_zone_subnets_accepted:
  "map AvailabilityZone (projr (DescribeSubnets sameZoneEC2 [''subnet-a'', ''subnet-b''] [])) =
     [''us-east-1a'', ''us-east-1a''] \<and>
   fst (parseSubnets sameZoneEC2 0 Map.empty ''subnet-a,subnet-b'') =
     Ok [''subnet-a'', ''subnet-b'']"
  by (simp add: subnets_eval_defs sameZoneEC2_def)



text \<open>An example: annotations without the subnets key, and a rendering of the map.\<close>

definition noSubnetsAnnotations :: annotations where
  "noSubnetsAnnotations = [schemeKey \<mapsto> ''internal'']"

definition examplePrettify :: "annotations \<Rightarrow> string" where
  "examplePrettify m =
     concat (map (\<lambda>k. k @ '': '' @ annotationsGet m k @ ''; '')
       [backendProtocolKey, certificateArnKey, healthcheckPathKey, portKey, schemeKey,
        securityGroupsKey, subnetsKey, successCodesKey, tagsKey])"

text \<open>
  The map as a call that misses the negative cache leaves it: with the defaults of the
  success codes and of the backend protocol written into it where they were empty.
\<close>

definition withDefaults :: "annotations \<Rightarrow> annotations" where
  "withDefaults m0 =
     (let m1 = (if annotationsGet m0 successCodesKey = [] then m0(successCodesKey \<mapsto> ''200'')
                else m0)
      in if annotationsGet m1 backendProtocolKey = [] then m1(backendProtocolKey \<mapsto> ''HTTP'')
         else m1)"

lemmas annotation_key_defs =
  backendProtocolKey_def certificateArnKey_def healthcheckPathKey_def portKey_def schemeKey_def
  securityGroupsKey_def subnetsKey_def successCodesKey_def tagsKey_def

lemma withDefaults_present:
  "annotationsGet (withDefaults m) successCodesKey \<noteq> [] \<and>
   annotationsGet (withDefaults m) backendProtocolKey \<noteq> []"
proof -
  have ne: "successCodesKey \<noteq> backendProtocolKey"
    by (simp add: successCodesKey_def backendProtocolKey_def)
  then show ?thesis
    by (auto simp: withDefaults_def Let_def annotationsGet_def)
qed

lemma withDefaults_id:
  "annotationsGet m successCodesKey \<noteq> [] \<Longrightarrow> annotationsGet m backendProtocolKey \<noteq> [] \<Longrightarrow>
   withDefaults m = m"
  by (simp add: withDefaults_def)

lemma parseAnnotations_hit:
  "cacheGet cache now (annotationsCacheKey prettifySorted ann) \<noteq> None \<Longrightarrow>
   parseAnnotations ec2 prettifySorted now cache ann = (Ok None, cache, ann, [])"
  by (simp add: parseAnnotations_def Let_def)

lemma parseAnnotations_miss:
  assumes "cacheGet cache now (annotationsCacheKey prettifySorted (Some m0)) = None"
  shows "parseAnnotations ec2 prettifySorted now cache (Some m0) =
     (let cacheKey = annotationsCacheKey prettifySorted (Some m0);
          m = withDefaults m0;
          bad = (\<lambda>c. cacheSet c now cacheKey (CachedText ''error'') 3600)
      in if annotationsGet m subnetsKey = []
         then (Failed (Error (''Necessary annotations missing. Must include '' @ subnetsKey)),
               bad cache, Some m, [])
         else case parseSubnets ec2 now cache (annotationsGet m subnetsKey) of
           (r1, cache1, calls1) \<Rightarrow>
             (case r1 of
                Panicked \<Rightarrow> (Panicked, cache1, Some m, calls1)
              | Failed err \<Rightarrow> (Failed err, bad cache1, Some m, calls1)
              | Ok subnets1 \<Rightarrow>
                 (case parseSecurityGroups ec2 now cache1 (annotationsGet m securityGroupsKey) of
                    (r2, cache2, calls2) \<Rightarrow>
                      (case r2 of
                         Panicked \<Rightarrow> (Panicked, cache2, Some m, calls1 @ calls2)
                       | Failed err \<Rightarrow> (Failed err, bad cache2, Some m, calls1 @ calls2)
                       | Ok securitygroups \<Rightarrow>
                          (case parseScheme (annotationsGet m schemeKey) of
                             Inl err \<Rightarrow> (Failed err, bad cache2, Some m, calls1 @ calls2)
                           | Inr scheme1 \<Rightarrow>
                              (Ok (Some
                                 \<lparr>backendProtocol = Some (annotationsGet m backendProtocolKey),
                                  certificateArn = m certificateArnKey,
                                  healthcheckPath =
                                    Some (parseHealthcheckPath (annotationsGet m healthcheckPathKey)),
                                  port = parsePort (annotationsGet m portKey)
                                           (annotationsGet m certificateArnKey),
                                  scheme = Some scheme1,
                                  securityGroups = securitygroups,
                                  subnets = subnets1,
                                  successCodes = Some (annotationsGet m successCodesKey),
                                  tags = stringToTags (annotationsGet m tagsKey)\<rparr>),
                               cache2, Some m, calls1 @ calls2))))))"
  using assms by (simp add: parseAnnotations_def withDefaults_def Let_def)

lemma parseAnnotations_failed:
  assumes "parseAnnotations ec2 prettifySorted now cache ann = (Failed e, cache', ann', calls)"
  shows "\<exists>m. ann = Some m \<and> ann' = Some (withDefaults m) \<and>
           cache' (annotationsCacheKey prettifySorted ann) = Some (CachedText ''error'', now + 3600)"
proof -
  have miss: "cacheGet cache now (annotationsCacheKey prettifySorted ann) = None"
    using assms by (auto simp: parseAnnotations_def Let_def split: if_splits)
  from assms miss obtain m0 where m0: "ann = Some m0"
    by (cases ann) (auto simp: parseAnnotations_def Let_def)
  obtain r1 cache1 calls1 where p1:
    "parseSubnets ec2 now cache (annotationsGet (withDefaults m0) subnetsKey) = (r1, cache1, calls1)"
    by (metis prod_cases3)
  obtain r2 cache2 calls2 where p2:
    "parseSecurityGroups ec2 now cache1 (annotationsGet (withDefaults m0) securityGroupsKey) =
       (r2, cache2, calls2)"
    by (metis prod_cases3)
  from assms have "ann' = Some (withDefaults m0) \<and>
      cache' (annotationsCacheKey prettifySorted (Some m0)) = Some (CachedText ''error'', now + 3600)"
    unfolding m0 parseAnnotations_miss [OF miss [unfolded m0]] Let_def
    by (auto simp: p1 p2 cacheSet_def split: if_splits outcome.splits sum.splits)
  with m0 show ?thesis by simp
qed

text \<open>
  C10, as the code has it. When the negative cache holds a live entry under the key of an
  annotation map, \<open>parseAnnotations\<close> returns a nil configuration with a nil error, calls
  nothing, and leaves the cache and the map as they are. A parse that returns an error
  leaves such an entry, live for one hour, under the key of the map as it was given, and
  leaves the map with the defaults of the success codes and of the backend protocol
  written into it. Within the hour a call on a map with the contents the failed call was
  given returns nil and nil, whatever the cloud would answer; a call on the map the failed
  call was given does so when that map held both values already. A map that a failed call
  has left holds both values.
\<close>

theorem parseAnnotations_negative_cache:
  "(cacheGet cache now (annotationsCacheKey prettifySorted ann) \<noteq> None \<longrightarrow>
      parseAnnotations ec2 prettifySorted now cache ann = (Ok None, cache, ann, [])) \<and>
   (parseAnnotations ec2 prettifySorted now cache ann = (Failed e, cache', ann', calls) \<and>
    later < now + 3600 \<longrightarrow>
      cacheGet cache' later (annotationsCacheKey prettifySorted ann) = Some (CachedText ''error'') \<and>
      parseAnnotations ec2' prettifySorted later cache' ann = (Ok None, cache', ann, []) \<and>
      (\<exists>m. ann = Some m \<and> ann' = Some (withDefaults m) \<and>
         annotationsGet (withDefaults m) successCodesKey \<noteq> [] \<and>
         annotationsGet (withDefaults m) backendProtocolKey \<noteq> [] \<and>
         (annotationsGet m successCodesKey \<noteq> [] \<and> annotationsGet m backendProtocolKey \<noteq> [] \<longrightarrow>
            ann' = ann \<and>
            parseAnnotations ec2' prettifySorted later cache' ann' = (Ok None, cache', ann', []))))"
proof -
  have "cacheGet cache' later (annotationsCacheKey prettifySorted ann) = Some (CachedText ''error'') \<and>
      parseAnnotations ec2' prettifySorted later cache' ann = (Ok None, cache', ann, []) \<and>
      (\<exists>m. ann = Some m \<and> ann' = Some (withDefaults m) \<and>
         annotationsGet (withDefaults m) successCodesKey \<noteq> [] \<and>
         annotationsGet (withDefaults m) backendProtocolKey \<noteq> [] \<and>
         (annotationsGet m successCodesKey \<noteq> [] \<and> annotationsGet m backendProtocolKey \<noteq> [] \<longrightarrow>
            ann' = ann \<and>
            parseAnnotations ec2' prettifySorted later cache' ann' = (Ok None, cache', ann', [])))"
    if f: "parseAnnotations ec2 prettifySorted now cache ann = (Failed e, cache', ann', calls)"
      and l: "later < now + 3600"
  proof -
    from parseAnnotations_failed [OF f] obtain m where
      m: "ann = Some m" "ann' = Some (withDefaults m)"
      and c: "cache' (annotationsCacheKey prettifySorted ann) = Some (CachedText ''error'', now + 3600)"
      by blast
    from c l have g: "cacheGet cache' later (annotationsCacheKey prettifySorted ann) =
        Some (CachedText ''error'')"
      by (simp add: cacheGet_def)
    then have h: "parseAnnotations ec2' prettifySorted later cache' ann = (Ok None, cache', ann, [])"
      by (simp add: parseAnnotations_hit)
    have "ann' = ann \<and>
          parseAnnotations ec2' prettifySorted later cache' ann' = (Ok None, cache', ann', [])"
      if "annotationsGet m successCodesKey \<noteq> []" "annotationsGet m backendProtocolKey \<noteq> []"
      using withDefaults_id [OF that] m h by simp
    with g h m withDefaults_present [of m] show ?thesis by blast
  qed
  then show ?thesis using parseAnnotations_hit by blast
qed

theorem parseAnnotations_negative_cache_witness:
  "fst (parseAnnotations webEC2 examplePrettify 0 Map.empty (Some noSubnetsAnnotations)) =
     Failed (Error ''Necessary annotations missing. Must include alb.ingress.kubernetes.io/subnets'') \<and>
   fst (parseAnnotations webEC2 examplePrettify 3599
          (fst (snd (parseAnnotations webEC2 examplePrettify 0 Map.empty
                       (Some noSubnetsAnnotations))))
          (Some noSubnetsAnnotations)) = Ok None \<and>
   snd (snd (snd (parseAnnotations webEC2 examplePrettify 3599
          (fst (snd (parseAnnotations webEC2 examplePrettify 0 Map.empty
                       (Some noSubnetsAnnotations))))
          (Some noSubnetsAnnotations)))) = [] \<and>
   fst (snd (snd (parseAnnotations webEC2 examplePrettify 0 Map.empty
                    (Some noSubnetsAnnotations)))) =
     Some (withDefaults noSubnetsAnnotations)"
proof -
  obtain r cache' ann' calls where
    p: "parseAnnotations webEC2 examplePrettify 0 Map.empty (Some noSubnetsAnnotations) =
          (r, cache', ann', calls)"
    by (metis prod_cases4)
  have r: "r = Failed (Error ''Necessary annotations missing. Must include alb.ingress.kubernetes.io/subnets'')"
    using p
    by (simp add: parseAnnotations_def Let_def cacheGet_def annotationsGet_def
          noSubnetsAnnotations_def subnetsKey_def schemeKey_def successCodesKey_def
          backendProtocolKey_def)
  from parseAnnotations_negative_cache [where later = 3599 and ec2' = webEC2,
      THEN conjunct2, rule_format, OF conjI, OF p [unfolded r]]
  have "parseAnnotations webEC2 examplePrettify 3599 cache' (Some noSubnetsAnnotations) =
          (Ok None, cache', Some noSubnetsAnnotations, []) \<and>
        ann' = Some (withDefaults noSubnetsAnnotations)"
    by auto
  with p r show ?thesis by simp
qed

text \<open>
  C10 as stated fails for the map a failed parse was given: the parse of
  \<open>noSubnetsAnnotations\<close> fails and leaves a live entry in the negative cache, but it
  has written the two defaults into the map, and one second later the call on the map as
  it now is does not find that entry and returns the error again.
\<close>

theorem repeated_parse_of_mutated_map_fails_again:
  "fst (parseAnnotations webEC2 examplePrettify 0 Map.empty (Some noSubnetsAnnotations)) =
     Failed (Error ''Necessary annotations missing. Must include alb.ingress.kubernetes.io/subnets'') \<and>
   cacheGet (fst (snd (parseAnnotations webEC2 examplePrettify 0 Map.empty
                         (Some noSubnetsAnnotations))))
     1 (annotationsCacheKey examplePrettify (Some noSubnetsAnnotations)) =
     Some (CachedText ''error'') \<and>
   fst (parseAnnotations webEC2 examplePrettify 1
          (fst (snd (parseAnnotations webEC2 examplePrettify 0 Map.empty
                       (Some noSubnetsAnnotations))))
          (fst (snd (snd (parseAnnotations webEC2 examplePrettify 0 Map.empty
                            (Some noSubnetsAnnotations)))))) =
     Failed (Error ''Necessary annotations missing. Must include alb.ingress.kubernetes.io/subnets'')"
proof -
  have first: "parseAnnotations webEC2 examplePrettify 0 Map.empty (Some noSubnetsAnnotations) =
      (Failed (Error ''Necessary annotations missing. Must include alb.ingress.kubernetes.io/subnets''),
       cacheSet Map.empty 0 (annotationsCacheKey examplePrettify (Some noSubnetsAnnotations))
         (CachedText ''error'') 3600,
       Some (withDefaults noSubnetsAnnotations), [])"
    by (simp add: parseAnnotations_def withDefaults_def Let_def cacheGet_def annotationsGet_def
          noSubnetsAnnotations_def subnetsKey_def schemeKey_def successCodesKey_def
          backendProtocolKey_def)
  have keys: "annotationsCacheKey examplePrettify (Some (withDefaults noSubnetsAnnotations)) \<noteq>
              annotationsCacheKey examplePrettify (Some noSubnetsAnnotations)"
    by (simp add: annotationsCacheKey_def examplePrettify_def withDefaults_def Let_def
          annotationsGet_def noSubnetsAnnotations_def annotation_key_defs)
  have sub: "annotationsGet (withDefaults (withDefaults noSubnetsAnnotations)) subnetsKey = []"
    by (simp add: withDefaults_def Let_def annotationsGet_def noSubnetsAnnotations_def
          annotation_key_defs)
  have miss: "cacheGet
      (cacheSet Map.empty 0 (annotationsCacheKey examplePrettify (Some noSubnetsAnnotations))
         (CachedText ''error'') 3600)
      1 (annotationsCacheKey examplePrettify (Some (withDefaults noSubnetsAnnotations))) = None"
    using keys by (simp add: cacheGet_def cacheSet_def)
  have second: "fst (parseAnnotations webEC2 examplePrettify 1
      (cacheSet Map.empty 0 (annotationsCacheKey examplePrettify (Some noSubnetsAnnotations))
         (CachedText ''error'') 3600)
      (Some (withDefaults noSubnetsAnnotations))) =
      Failed (Error ''Necessary annotations missing. Must include alb.ingress.kubernetes.io/subnets'')"
    unfolding parseAnnotations_miss [OF miss] Let_def
    by (simp add: sub) (simp add: subnetsKey_def)
  have live: "cacheGet
      (cacheSet Map.empty 0 (annotationsCacheKey examplePrettify (Some noSubnetsAnnotations))
         (CachedText ''error'') 3600)
      1 (annotationsCacheKey examplePrettify (Some noSubnetsAnnotations)) =
      Some (CachedText ''error'')"
    by (simp add: cacheGet_def cacheSet_def)
  from second live show ?thesis by (simp add: first)
qed


section \<open>Desired listener rules (internal/alb/rs)\<close>



















subsection \<open>Properties of the desired rules\<close>

















end
